theory Spec2Isabelle
  imports Main
begin

section \<open>JavaScript values\<close>

text \<open>
  The worker is TypeScript; at run time its values are JavaScript values. The ones the
  content-published handler touches are modelled here: \<open>undefined\<close>, \<open>null\<close>, booleans,
  (integral) numbers, strings, \<open>Date\<close> objects (a time value in milliseconds since the
  epoch, or the invalid date), arrays of strings and plain objects.
\<close>

datatype jsval =
    Undefined
  | Null
  | JBool bool
  | JNum int
  | JStr string
  | JDate int
  | JInvalidDate
  | JArr "string list"
  | JObj "(string \<times> jsval) list"

text \<open>An object (the partial post \<open>data\<close>, a row read from the store) maps property
  names to values; a property that is absent reads as \<open>undefined\<close>.\<close>

type_synonym obj = "string \<Rightarrow> jsval"

definition empty_obj :: obj where
  "empty_obj = (\<lambda>k. Undefined)"

datatype error = TypeError | RangeError | RepositoryNotFoundError

text \<open>What an async function of the worker resolves to: \<open>return null\<close> or \<open>return\<close>.\<close>

datatype ret = RetNull | RetUndefined

text \<open>ToBoolean.\<close>

fun truthy :: "jsval \<Rightarrow> bool" where
  "truthy Undefined = False"
| "truthy Null = False"
| "truthy (JBool b) = b"
| "truthy (JNum n) = (n \<noteq> 0)"
| "truthy (JStr s) = (s \<noteq> [])"
| "truthy (JDate t) = True"
| "truthy JInvalidDate = True"
| "truthy (JArr xs) = True"
| "truthy (JObj kvs) = True"

text \<open>\<open>a || b\<close>, \<open>a && b\<close> and \<open>a ?? b\<close>.\<close>

definition js_or :: "jsval \<Rightarrow> jsval \<Rightarrow> jsval" where
  "js_or a b = (if truthy a then a else b)"

definition js_and :: "jsval \<Rightarrow> jsval \<Rightarrow> jsval" where
  "js_and a b = (if truthy a then b else a)"

definition js_nullish :: "jsval \<Rightarrow> jsval \<Rightarrow> jsval" where
  "js_nullish a b = (if a = Undefined \<or> a = Null then b else a)"

text \<open>\<open>a === b\<close>: primitives compare by value, objects (dates, arrays, plain objects)
  by reference; two objects obtained separately (one from the store, one from the
  event) are never the same reference.\<close>

fun strict_eq :: "jsval \<Rightarrow> jsval \<Rightarrow> bool" where
  "strict_eq Undefined Undefined = True"
| "strict_eq Null Null = True"
| "strict_eq (JBool a) (JBool b) = (a = b)"
| "strict_eq (JNum a) (JNum b) = (a = b)"
| "strict_eq (JStr a) (JStr b) = (a = b)"
| "strict_eq _ _ = False"

text \<open>\<open>v?.length\<close>.\<close>

fun opt_length :: "jsval \<Rightarrow> jsval" where
  "opt_length (JStr s) = JNum (int (length s))"
| "opt_length (JArr xs) = JNum (int (length xs))"
| "opt_length (JObj kvs) = (case map_of kvs ''length'' of Some v \<Rightarrow> v | None \<Rightarrow> Undefined)"
| "opt_length _ = Undefined"

text \<open>The \<open>in\<close> operator on an object literal with the own keys \<open>ks\<close>: it walks the
  prototype chain, so the property names every object inherits from
  \<open>Object.prototype\<close> are found as well.\<close>

definition object_prototype_names :: "string list" where
  "object_prototype_names =
     [''constructor'', ''__defineGetter__'', ''__defineSetter__'', ''hasOwnProperty'',
      ''__lookupGetter__'', ''__lookupSetter__'', ''isPrototypeOf'',
      ''propertyIsEnumerable'', ''toString'', ''valueOf'', ''__proto__'',
      ''toLocaleString'']"

definition js_in :: "string \<Rightarrow> string list \<Rightarrow> bool" where
  "js_in k ks = (k \<in> set ks \<or> k \<in> set object_prototype_names)"

subsection \<open>Strings\<close>

text \<open>\<open>a < b\<close> on strings: lexicographic on the code units; \<open>a >= b\<close> is its negation.\<close>

fun str_less :: "string \<Rightarrow> string \<Rightarrow> bool" where
  "str_less [] [] = False"
| "str_less [] (y # ys) = True"
| "str_less (x # xs) [] = False"
| "str_less (x # xs) (y # ys) =
     ((of_char x :: nat) < of_char y \<or> (x = y \<and> str_less xs ys))"

definition str_ge :: "string \<Rightarrow> string \<Rightarrow> bool" where
  "str_ge a b = (\<not> str_less a b)"

text \<open>\<open>s.split(',')\<close>: the pieces between the commas, empty pieces kept.\<close>

fun split_comma_acc :: "string \<Rightarrow> string \<Rightarrow> string list" where
  "split_comma_acc acc [] = [rev acc]"
| "split_comma_acc acc (c # cs) =
     (if c = CHR '','' then rev acc # split_comma_acc [] cs
      else split_comma_acc (c # acc) cs)"

definition split_comma :: "string \<Rightarrow> string list" where
  "split_comma s = split_comma_acc [] s"

text \<open>\<open>xs.join(',')\<close>.\<close>

fun join_comma :: "string list \<Rightarrow> string" where
  "join_comma [] = []"
| "join_comma [x] = x"
| "join_comma (x # y # ys) = x @ '','' @ join_comma (y # ys)"

subsection \<open>Dates\<close>

text \<open>\<open>Date.prototype.toISOString\<close>, from the day-number arithmetic of the language
  standard: a time value \<open>t\<close> is split into its day and the time within the day, the
  day into year, month and date. Years 0 to 9999 print with four digits, all others
  with a sign and six digits.\<close>

definition msPerDay :: int where
  "msPerDay = 86400000"

definition Day :: "int \<Rightarrow> int" where
  "Day t = t div msPerDay"

definition DaysInYear :: "int \<Rightarrow> int" where
  "DaysInYear y =
     (if y mod 4 \<noteq> 0 then 365
      else if y mod 100 \<noteq> 0 then 366
      else if y mod 400 \<noteq> 0 then 365
      else 366)"

definition DayFromYear :: "int \<Rightarrow> int" where
  "DayFromYear y =
     365 * (y - 1970) + (y - 1969) div 4 - (y - 1901) div 100 + (y - 1601) div 400"

text \<open>A year has 365 or 366 days, so the day number of the first day of a year grows
  with the year.\<close>

lemma div_step:
  fixes x n :: int
  assumes "0 < n"
  shows "(x + 1) div n = x div n + (if (x + 1) mod n = 0 then 1 else 0)"
proof -
  define q r where "q = x div n" and "r = x mod n"
  have x: "x = n * q + r" by (simp add: q_def r_def)
  have r: "0 \<le> r" "r < n" using assms by (simp_all add: r_def)
  show ?thesis
  proof (cases "r = n - 1")
    case True
    have e: "x + 1 = n * (q + 1) + 0" using x True by (simp add: algebra_simps)
    have "(x + 1) div n = q + 1" using int_div_pos_eq [OF e] assms by simp
    moreover have "(x + 1) mod n = 0" using int_mod_pos_eq [OF e] assms by simp
    ultimately show ?thesis by (simp add: q_def)
  next
    case False
    have e: "x + 1 = n * q + (r + 1)" using x by simp
    have b: "0 \<le> r + 1" "r + 1 < n" using r False by linarith+
    have "(x + 1) div n = q" using int_div_pos_eq [OF e b] .
    moreover have "(x + 1) mod n = r + 1" using int_mod_pos_eq [OF e b] .
    ultimately show ?thesis using r by (simp add: q_def)
  qed
qed

lemma mod_shift:
  fixes y n k :: int
  assumes "0 < n"
  shows "(y - n * k) mod n = y mod n"
proof -
  have e: "y - n * k = n * (y div n - k) + y mod n"
    by (simp add: algebra_simps)
  show ?thesis using int_mod_pos_eq [OF e] assms by simp
qed

lemma DayFromYear_Suc: "DayFromYear (y + 1) = DayFromYear y + DaysInYear y"
proof -
  have a: "(y + 1 - 1969) div 4 = (y - 1969) div 4 + (if y mod 4 = 0 then 1 else 0)"
    using div_step [of 4 "y - 1969"] mod_shift [of 4 y 492] by (simp add: algebra_simps)
  have b: "(y + 1 - 1901) div 100 = (y - 1901) div 100 + (if y mod 100 = 0 then 1 else 0)"
    using div_step [of 100 "y - 1901"] mod_shift [of 100 y 19] by (simp add: algebra_simps)
  have c: "(y + 1 - 1601) div 400 = (y - 1601) div 400 + (if y mod 400 = 0 then 1 else 0)"
    using div_step [of 400 "y - 1601"] mod_shift [of 400 y 4] by (simp add: algebra_simps)
  have d1: "y mod 100 = 0 \<Longrightarrow> y mod 4 = 0"
    using dvd_trans [of 4 100 y] by (simp add: mod_eq_0_iff_dvd)
  have d2: "y mod 400 = 0 \<Longrightarrow> y mod 100 = 0"
    using dvd_trans [of 100 400 y] by (simp add: mod_eq_0_iff_dvd)
  show ?thesis
    unfolding DayFromYear_def DaysInYear_def a b c
    using d1 d2 by auto
qed

lemma DaysInYear_bounds: "365 \<le> DaysInYear y \<and> DaysInYear y \<le> 366"
  by (simp add: DaysInYear_def)

text \<open>The year of a day \<open>d\<close> is the largest \<open>y\<close> with \<open>DayFromYear y \<le> d\<close>. The search
  starts from a year that is not after it (a year has at most 366 and at least 365
  days) and walks up while the next year starts on or before \<open>d\<close>.\<close>

function year_search :: "int \<Rightarrow> int \<Rightarrow> int" where
  "year_search d y = (if DayFromYear (y + 1) \<le> d then year_search d (y + 1) else y)"
  by pat_completeness auto
termination
proof (relation "measure (\<lambda>(d, y). nat (d + 1 - DayFromYear (y + 1)))")
  show "wf (measure (\<lambda>(d, y). nat (d + 1 - DayFromYear (y + 1))))" by simp
next
  fix d y :: int
  assume "DayFromYear (y + 1) \<le> d"
  moreover have "DayFromYear (y + 1 + 1) = DayFromYear (y + 1) + DaysInYear (y + 1)"
    by (rule DayFromYear_Suc)
  ultimately show "((d, y + 1), (d, y)) \<in> measure (\<lambda>(d, y). nat (d + 1 - DayFromYear (y + 1)))"
    using DaysInYear_bounds [of "y + 1"] by simp
qed

declare year_search.simps [simp del]

definition year_start :: "int \<Rightarrow> int" where
  "year_start d = 1970 + (if 0 \<le> d then d div 366 else d div 365)"

definition YearFromDay :: "int \<Rightarrow> int" where
  "YearFromDay d = year_search d (year_start d)"

definition YearFromTime :: "int \<Rightarrow> int" where
  "YearFromTime t = YearFromDay (Day t)"

definition InLeapYear :: "int \<Rightarrow> int" where
  "InLeapYear t = (if DaysInYear (YearFromTime t) = 366 then 1 else 0)"

definition DayWithinYear :: "int \<Rightarrow> int" where
  "DayWithinYear t = Day t - DayFromYear (YearFromTime t)"

definition MonthFromTime :: "int \<Rightarrow> int" where
  "MonthFromTime t =
     (let d = DayWithinYear t; l = InLeapYear t in
      if d < 31 then 0
      else if d < 59 + l then 1
      else if d < 90 + l then 2
      else if d < 120 + l then 3
      else if d < 151 + l then 4
      else if d < 181 + l then 5
      else if d < 212 + l then 6
      else if d < 243 + l then 7
      else if d < 273 + l then 8
      else if d < 304 + l then 9
      else if d < 334 + l then 10
      else 11)"

definition DateFromTime :: "int \<Rightarrow> int" where
  "DateFromTime t =
     (let d = DayWithinYear t; l = InLeapYear t; m = MonthFromTime t in
      if m = 0 then d + 1
      else if m = 1 then d - 30
      else if m = 2 then d - 58 - l
      else if m = 3 then d - 89 - l
      else if m = 4 then d - 119 - l
      else if m = 5 then d - 150 - l
      else if m = 6 then d - 180 - l
      else if m = 7 then d - 211 - l
      else if m = 8 then d - 242 - l
      else if m = 9 then d - 272 - l
      else if m = 10 then d - 303 - l
      else d - 333 - l)"

definition HourFromTime :: "int \<Rightarrow> int" where
  "HourFromTime t = (t div 3600000) mod 24"

definition MinFromTime :: "int \<Rightarrow> int" where
  "MinFromTime t = (t div 60000) mod 60"

definition SecFromTime :: "int \<Rightarrow> int" where
  "SecFromTime t = (t div 1000) mod 60"

definition msFromTime :: "int \<Rightarrow> int" where
  "msFromTime t = t mod 1000"

definition digit :: "int \<Rightarrow> char" where
  "digit n = (''0123456789'' ! nat (n mod 10))"

definition pad2 :: "int \<Rightarrow> string" where
  "pad2 n = [digit (n div 10), digit n]"

definition pad3 :: "int \<Rightarrow> string" where
  "pad3 n = [digit (n div 100), digit (n div 10), digit n]"

definition pad4 :: "int \<Rightarrow> string" where
  "pad4 n = [digit (n div 1000), digit (n div 100), digit (n div 10), digit n]"

definition pad6 :: "int \<Rightarrow> string" where
  "pad6 n = [digit (n div 100000), digit (n div 10000), digit (n div 1000),
             digit (n div 100), digit (n div 10), digit n]"

definition year_string :: "int \<Rightarrow> string" where
  "year_string y =
     (if 0 \<le> y \<and> y \<le> 9999 then pad4 y
      else if y < 0 then ''-'' @ pad6 (- y)
      else ''+'' @ pad6 y)"

definition iso_string :: "int \<Rightarrow> string" where
  "iso_string t =
     year_string (YearFromTime t) @ ''-'' @ pad2 (MonthFromTime t + 1) @ ''-'' @
     pad2 (DateFromTime t) @ ''T'' @ pad2 (HourFromTime t) @ '':'' @
     pad2 (MinFromTime t) @ '':'' @ pad2 (SecFromTime t) @ ''.'' @
     pad3 (msFromTime t) @ ''Z''"

text \<open>\<open>v.toISOString()\<close>: a RangeError on the invalid date, a TypeError on anything
  that is not a date.\<close>

fun toISOString :: "jsval \<Rightarrow> error + string" where
  "toISOString (JDate t) = Inr (iso_string t)"
| "toISOString JInvalidDate = Inl RangeError"
| "toISOString _ = Inl TypeError"

text \<open>\<open>new Date(n)\<close> for a number of milliseconds: time values beyond 8.64e15 in
  magnitude give the invalid date.\<close>

definition new_Date :: "int \<Rightarrow> jsval" where
  "new_Date n = (if \<bar>n\<bar> \<le> 8640000000000000 then JDate n else JInvalidDate)"

section \<open>The store\<close>

text \<open>
  The worker runs against a relational store through an entity manager. The tables it
  reads and writes are modelled as lists of rows. A post row is an object holding its
  columns (\<open>type\<close> is the discriminator of the post subtypes, which share one table);
  the keyword and the question index are sets of (post id, string) pairs.
\<close>

datatype SubmissionStatus = Started | Accepted | Rejected

record Submission =
  sub_id :: string
  userId :: string
  status :: SubmissionStatus
  reason :: "string option"

record Source =
  src_id :: string
  src_private :: bool

record store =
  posts :: "obj list"
  submissions :: "Submission list"
  postKeywords :: "(jsval \<times> string) set"
  postQuestions :: "(jsval \<times> string) set"
  sources :: "Source list"

text \<open>Modelled from the spec: the values of the enumerations \<open>PostType\<close>, \<open>PostOrigin\<close>
  and \<open>SubmissionFailErrorKeys\<close> and the constant \<open>UNKNOWN_SOURCE\<close>, which the worker
  imports from the entity and error modules (content types article, freeform, share and
  welcome; origins crawler, community pick and squad; the generic-error and the
  scout-is-author reason; the sentinel unknown source).\<close>

datatype PostType = Article | Freeform | Share | Welcome

fun PostType_value :: "PostType \<Rightarrow> string" where
  "PostType_value Article = ''article''"
| "PostType_value Freeform = ''freeform''"
| "PostType_value Share = ''share''"
| "PostType_value Welcome = ''welcome''"

definition PostOrigin_Crawler :: string where
  "PostOrigin_Crawler = ''crawler''"

definition PostOrigin_CommunityPicks :: string where
  "PostOrigin_CommunityPicks = ''community_picks''"

definition PostOrigin_Squad :: string where
  "PostOrigin_Squad = ''squads''"

definition UNKNOWN_SOURCE :: string where
  "UNKNOWN_SOURCE = ''unknown''"

definition GenericError :: string where
  "GenericError = ''GENERIC_ERROR''"

definition ScoutIsAuthor :: string where
  "ScoutIsAuthor = ''SCOUT_IS_AUTHOR''"

text \<open>The collaborators the worker imports and the readings of the clock, as
  parameters: author resolution, the keyword vocabulary merge (allowed keywords, merged
  keywords), HTML entity decoding, read-time parsing, the generated short id, the three
  \<open>new Date()\<close> readings (metadata timestamp and visibility timestamp in \<open>fixData\<close>,
  creation timestamp in \<open>createPost\<close>), the banned authors and the own keys of the
  \<open>SubmissionFailErrorMessage\<close> table.\<close>

record env =
  findAuthor :: "jsval \<Rightarrow> jsval"
  mergeKeywords :: "string list option \<Rightarrow> string list \<times> string list"
  he_decode :: "string \<Rightarrow> string"
  parseReadTime :: "jsval \<Rightarrow> jsval"
  generateShortId :: string
  now_metadata :: int
  now_visible :: int
  now_created :: int
  bannedAuthors :: "string list"
  SubmissionFailErrorMessage :: "string list"

text \<open>The event (interface \<open>Data\<close>). Timestamps are taken as milliseconds since the
  epoch; an optional field that is absent is \<open>None\<close>.\<close>

record Extra =
  keywords' :: "string list option"
  questions' :: "string list option"
  summary :: "string option"
  description :: "string option"
  read_time :: "int option"
  canonical_url :: "string option"
  site_twitter :: "string option"
  creator_twitter :: "string option"
  toc :: jsval
  content_curation :: "string list option"

record Data =
  id' :: "string option"
  post_id :: "string option"
  url :: "string option"
  image' :: "string option"
  title :: "string option"
  content_type :: "string option"
  reject_reason :: "string option"
  submission_id :: "string option"
  source_id :: "string option"
  origin :: "string option"
  published_at :: "int option"
  updated_at :: "int option"
  paid :: "bool option"
  order' :: "int option"
  extra :: "Extra option"

definition ostr :: "string option \<Rightarrow> jsval" where
  "ostr v = (case v of None \<Rightarrow> Undefined | Some s \<Rightarrow> JStr s)"

definition onum :: "int option \<Rightarrow> jsval" where
  "onum v = (case v of None \<Rightarrow> Undefined | Some n \<Rightarrow> JNum n)"

definition oarr :: "string list option \<Rightarrow> jsval" where
  "oarr v = (case v of None \<Rightarrow> Undefined | Some xs \<Rightarrow> JArr xs)"

text \<open>\<open>data?.extra?.f\<close>.\<close>

definition extra_field :: "Data \<Rightarrow> (Extra \<Rightarrow> 'a option) \<Rightarrow> 'a option" where
  "extra_field data f = (case extra data of None \<Rightarrow> None | Some x \<Rightarrow> f x)"

subsection \<open>Queries and statements\<close>

text \<open>SQL equality of a column and a parameter: true only for two equal non-null
  values (the columns compared by the worker are text columns).\<close>

fun sql_eq :: "jsval \<Rightarrow> jsval \<Rightarrow> bool" where
  "sql_eq (JStr a) (JStr b) = (a = b)"
| "sql_eq _ _ = False"

text \<open>Modelled from the spec: the repositories of the post subtypes, whose entity
  classes the worker imports (the existing post is looked up by id, typed according to
  the declared content type). \<open>getRepository(postType).findOneBy({ id })\<close> is the first
  row of that subtype with the id; an update through such a repository writes the rows
  of that subtype that meet the criteria.\<close>

definition findOneBy_id :: "store \<Rightarrow> PostType \<Rightarrow> string \<Rightarrow> obj option" where
  "findOneBy_id s postType pid =
     find (\<lambda>p. p ''type'' = JStr (PostType_value postType) \<and> sql_eq (p ''id'') (JStr pid))
       (posts s)"

definition findSubmission :: "store \<Rightarrow> string \<Rightarrow> Submission option" where
  "findSubmission s sid = find (\<lambda>x. sub_id x = sid) (submissions s)"

text \<open>\<open>save\<close> of a loaded submission and \<open>update({ id }, ...)\<close>: the rows with that id
  are rewritten.\<close>

definition updateSubmission ::
  "store \<Rightarrow> string \<Rightarrow> (Submission \<Rightarrow> Submission) \<Rightarrow> store" where
  "updateSubmission s sid f =
     s\<lparr>submissions := map (\<lambda>x. if sub_id x = sid then f x else x) (submissions s)\<rparr>"

text \<open>Modelled from the spec: \<open>addKeywords\<close>, \<open>removeKeywords\<close> and \<open>addQuestions\<close> of the
  entity module (additive apply and removal by a prior list, keyed by post id).\<close>

definition addKeywords :: "store \<Rightarrow> string list \<Rightarrow> jsval \<Rightarrow> store" where
  "addKeywords s mergedKeywords postId =
     s\<lparr>postKeywords := postKeywords s \<union> (\<lambda>k. (postId, k)) ` set mergedKeywords\<rparr>"

definition removeKeywords :: "store \<Rightarrow> string list \<Rightarrow> jsval \<Rightarrow> store" where
  "removeKeywords s mergedKeywords postId =
     s\<lparr>postKeywords := postKeywords s - (\<lambda>k. (postId, k)) ` set mergedKeywords\<rparr>"

definition addQuestions :: "store \<Rightarrow> string list \<Rightarrow> jsval \<Rightarrow> store" where
  "addQuestions s questions postId =
     s\<lparr>postQuestions := postQuestions s \<union> (\<lambda>q. (postId, q)) ` set questions\<rparr>"

text \<open>Modelled from the spec: \<open>updateFlagsStatement\<close> of the common module, an update
  expression that merges the given sub-flags into the stored flags bag instead of
  replacing the bag. Its argument is an object literal \<open>{...data.flags, k: v}\<close>: the
  entries of the spread, with the key \<open>k\<close> set to \<open>v\<close> (\<open>set_entry\<close>, also when \<open>v\<close> is
  \<open>undefined\<close>). Sub-flags whose value is \<open>undefined\<close> in that object are not part of the
  expression.\<close>

fun set_entry :: "string \<Rightarrow> jsval \<Rightarrow> (string \<times> jsval) list \<Rightarrow> (string \<times> jsval) list" where
  "set_entry k v [] = [(k, v)]"
| "set_entry k v ((k', v') # kvs) =
     (if k = k' then (k, v) # kvs else (k', v') # set_entry k v kvs)"

definition spread :: "jsval \<Rightarrow> (string \<times> jsval) list" where
  "spread v = (case v of JObj kvs \<Rightarrow> kvs | _ \<Rightarrow> [])"

definition updateFlagsStatement :: "(string \<times> jsval) list \<Rightarrow> jsval \<Rightarrow> jsval" where
  "updateFlagsStatement patch stored =
     JObj (foldl (\<lambda>acc (k, v). if v = Undefined then acc else set_entry k v acc)
             (spread stored) patch)"

text \<open>\<open>repository.update(criteria, partial)\<close> on one row: a column is written when the
  partial entity defines it (\<open>null\<close> included); \<open>flags\<close> is written by the flags
  statement.\<close>

definition write_row :: "obj \<Rightarrow> (string \<times> jsval) list \<Rightarrow> obj \<Rightarrow> obj" where
  "write_row partial flags row =
     (\<lambda>k. if k = ''flags'' then updateFlagsStatement flags (row ''flags'')
          else if partial k = Undefined then row k
          else partial k)"

section \<open>The content-published worker\<close>

subsection \<open>handleRejection\<close>

text \<open>No submission id: nothing happens. Otherwise the submission is loaded, and when
  its status is Started it is saved as Rejected, with the incoming reason if
  \<open>reject_reason in SubmissionFailErrorMessage\<close> and the generic error otherwise. A
  missing \<open>reject_reason\<close> is the property key \<open>undefined\<close> for the \<open>in\<close> operator.\<close>

definition handleRejection :: "env \<Rightarrow> store \<Rightarrow> Data \<Rightarrow> store" where
  "handleRejection e s data =
     (if \<not> truthy (ostr (submission_id data)) then s
      else
        (case findSubmission s (the (submission_id data)) of
           None \<Rightarrow> s
         | Some submission \<Rightarrow>
             if status submission = Started then
               updateSubmission s (sub_id submission)
                 (\<lambda>x. submission\<lparr>status := Rejected,
                        reason :=
                          (if js_in (case reject_reason data of None \<Rightarrow> ''undefined'' | Some r \<Rightarrow> r)
                                (SubmissionFailErrorMessage e)
                           then reject_reason data
                           else Some GenericError)\<rparr>)
             else s))"

subsection \<open>createPost\<close>

text \<open>The duplicate query: the first post whose url or canonicalUrl equals the incoming
  url or canonicalUrl (\<open>urlMatches\<close> is the where clause).\<close>

definition urlMatches :: "obj \<Rightarrow> obj \<Rightarrow> bool" where
  "urlMatches data p =
     (sql_eq (p ''url'') (data ''url'') \<or> sql_eq (p ''url'') (data ''canonicalUrl'')
      \<or> sql_eq (p ''canonicalUrl'') (data ''url'')
      \<or> sql_eq (p ''canonicalUrl'') (data ''canonicalUrl''))"

definition existingPost :: "store \<Rightarrow> obj \<Rightarrow> obj option" where
  "existingPost s data = find (urlMatches data) (posts s)"

text \<open>The submission block of \<open>createPost\<close>: \<open>Inl\<close> is the early \<open>return null\<close> of the
  self-submission guard (with the store it leaves), \<open>Inr\<close> the store and the data the
  function goes on with.\<close>

definition acceptSubmission :: "store \<Rightarrow> obj \<Rightarrow> string option \<Rightarrow> store + store \<times> obj" where
  "acceptSubmission s data submissionId =
     (if truthy (ostr submissionId) then
        (case findSubmission s (the submissionId) of
           None \<Rightarrow> Inr (s, data)
         | Some submission \<Rightarrow>
             if strict_eq (data ''authorId'') (JStr (userId submission)) then
               Inl (updateSubmission s (the submissionId)
                      (\<lambda>x. x\<lparr>status := Rejected, reason := Some ScoutIsAuthor\<rparr>))
             else
               Inr (updateSubmission s (the submissionId) (\<lambda>x. x\<lparr>status := Accepted\<rparr>),
                    data(''scoutId'' := JStr (userId submission))))
      else Inr (s, data))"

text \<open>The new row: \<open>getRepository(ArticlePost).create(data)\<close> and \<open>save\<close> insert the
  data as an article.\<close>

definition insertArticle :: "store \<Rightarrow> obj \<Rightarrow> store" where
  "insertArticle s data =
     s\<lparr>posts := posts s @ [data(''type'' := JStr (PostType_value Article))]\<rparr>"

definition createPost ::
  "env \<Rightarrow> store \<Rightarrow> obj \<Rightarrow> string option \<Rightarrow> string list \<Rightarrow> string list \<Rightarrow> ret \<times> store" where
  "createPost e s data submissionId mergedKeywords questions =
     (case existingPost s data of
        Some p \<Rightarrow> (RetNull, s)
      | None \<Rightarrow>
          (case acceptSubmission s data submissionId of
             Inl s1 \<Rightarrow> (RetNull, s1)
           | Inr (s1, data1) \<Rightarrow>
               (let postId = generateShortId e;
                    postCreatedAt = now_created e;
                    data2 = data1(''id'' := JStr postId, ''shortId'' := JStr postId,
                                  ''createdAt'' := JDate postCreatedAt,
                                  ''score'' := JNum (postCreatedAt div (1000 * 60)));
                    data3 = data2(''origin'' :=
                              (if truthy (data2 ''scoutId'') then JStr PostOrigin_CommunityPicks
                               else js_nullish (data2 ''origin'') (JStr PostOrigin_Crawler)));
                    s2 = insertArticle s1 data3;
                    s3 = addKeywords s2 mergedKeywords (data3 ''id'');
                    s4 = addQuestions s3 questions (data3 ''id'')
                in (RetUndefined, s4))))"

subsection \<open>updatePost\<close>

definition allowedFieldsMapping :: "string \<Rightarrow> string list option" where
  "allowedFieldsMapping k =
     (if k = ''freeform''
      then Some [''contentCuration'', ''description'', ''metadataChangedAt'', ''readTime'',
                 ''summary'', ''tagsStr'']
      else None)"

text \<open>\<open>contentTypeFromPostType[content_type]\<close>: the repository of the subtype; for any
  other key \<open>getRepository\<close> has no entity and throws.\<close>

definition contentTypeFromPostType :: "string \<Rightarrow> PostType option" where
  "contentTypeFromPostType k =
     (if k = ''article'' then Some Article
      else if k = ''freeform'' then Some Freeform
      else if k = ''share'' then Some Share
      else if k = ''welcome'' then Some Welcome
      else None)"

text \<open>The staleness test: the two timestamps are compared as ISO strings.\<close>

definition stale :: "obj \<Rightarrow> obj \<Rightarrow> error + bool" where
  "stale databasePost data =
     (case toISOString (databasePost ''metadataChangedAt'') of
        Inl err \<Rightarrow> Inl err
      | Inr a \<Rightarrow>
          (case toISOString (data ''metadataChangedAt'') of
             Inl err \<Rightarrow> Inl err
           | Inr b \<Rightarrow> Inr (str_ge a b)))"

definition updateBecameVisible :: "string \<Rightarrow> obj \<Rightarrow> jsval \<Rightarrow> jsval" where
  "updateBecameVisible ctype databasePost title_now =
     (if ctype = PostType_value Freeform then databasePost ''visible''
      else JBool (\<not> truthy (databasePost ''visible'') \<and> truthy (opt_length title_now)))"

text \<open>The data as it is persisted: id, title, visibility and source are recomputed from
  the stored post, then every key outside the allowlist of the content type is deleted
  when the content type has one.\<close>

definition mergeData :: "string \<Rightarrow> obj \<Rightarrow> obj \<Rightarrow> error + obj" where
  "mergeData ctype databasePost data =
     (let title_now = js_or (data ''title'') (databasePost ''title'');
          ubv = updateBecameVisible ctype databasePost title_now;
          data1 = data(''id'' := databasePost ''id'', ''title'' := title_now, ''visible'' := ubv,
                       ''visibleAt'' :=
                         (if truthy ubv
                          then js_nullish (databasePost ''visibleAt'') (data ''metadataChangedAt'')
                          else Null),
                       ''sourceId'' := js_or (data ''sourceId'') (databasePost ''sourceId''))
      in if js_in ctype [''freeform''] then
           (case allowedFieldsMapping ctype of
              None \<Rightarrow> Inl TypeError
            | Some allowed \<Rightarrow>
                (let allowedFields =
                       [''id'', ''visible'', ''visibleAt'', ''flags'', ''yggdrasilId''] @ allowed
                 in Inr (\<lambda>key. if key \<in> set allowedFields then data1 key else Undefined)))
         else Inr data1)"

text \<open>The two update statements: the post itself, and the share posts that wrap it when
  the update made it visible.\<close>

definition updatePostRow :: "store \<Rightarrow> PostType \<Rightarrow> obj \<Rightarrow> obj \<Rightarrow> store" where
  "updatePostRow s postType databasePost data =
     s\<lparr>posts :=
         map (\<lambda>p. if p ''type'' = JStr (PostType_value postType)
                     \<and> sql_eq (p ''id'') (databasePost ''id'')
                  then write_row data (set_entry ''visible'' (data ''visible'') (spread (data ''flags''))) p
                  else p)
           (posts s)\<rparr>"

definition updateSharePosts :: "store \<Rightarrow> obj \<Rightarrow> store" where
  "updateSharePosts s data =
     s\<lparr>posts :=
         map (\<lambda>p. if p ''type'' = JStr (PostType_value Share)
                     \<and> sql_eq (p ''sharedPostId'') (data ''id'')
                  then write_row
                         (empty_obj(''visible'' := JBool True, ''visibleAt'' := data ''visibleAt'',
                                    ''private'' := data ''private''))
                         (set_entry ''visible'' (JBool True)
                            (set_entry ''private'' (data ''private'') (spread (data ''flags''))))
                         p
                  else p)
           (posts s)\<rparr>"

text \<open>The keyword block: when the stored tag string and the incoming one differ, the
  keywords of the stored one are removed (if it has a length) and the merged keywords
  are added.\<close>

definition updateKeywords :: "store \<Rightarrow> obj \<Rightarrow> obj \<Rightarrow> string list \<Rightarrow> error + store" where
  "updateKeywords s databasePost data mergedKeywords =
     (if \<not> strict_eq (databasePost ''tagsStr'') (data ''tagsStr'') then
        (if truthy (opt_length (databasePost ''tagsStr'')) then
           (case databasePost ''tagsStr'' of
              JStr tags \<Rightarrow>
                Inr (addKeywords (removeKeywords s (split_comma tags) (data ''id''))
                       mergedKeywords (data ''id''))
            | _ \<Rightarrow> Inl TypeError)
         else Inr (addKeywords s mergedKeywords (data ''id'')))
      else Inr s)"

text \<open>What \<open>updatePost\<close> does once the update is known not to be stale (from the
  recomputation of the title to the final \<open>return\<close>).\<close>

definition persistUpdate ::
  "store \<Rightarrow> PostType \<Rightarrow> string \<Rightarrow> obj \<Rightarrow> obj \<Rightarrow> string list \<Rightarrow> string list
     \<Rightarrow> error + ret \<times> store" where
  "persistUpdate s postType ctype databasePost data mergedKeywords questions =
     (case mergeData ctype databasePost data of
        Inl err \<Rightarrow> Inl err
      | Inr data1 \<Rightarrow>
          (let title_now = js_or (data ''title'') (databasePost ''title'');
               s1 = updatePostRow s postType databasePost data1;
               s2 = (if truthy (updateBecameVisible ctype databasePost title_now)
                     then updateSharePosts s1 data1 else s1)
           in case updateKeywords s2 databasePost data1 mergedKeywords of
                Inl err \<Rightarrow> Inl err
              | Inr s3 \<Rightarrow> Inr (RetUndefined, addQuestions s3 questions (data1 ''id''))))"

text \<open>A squad origin forces the source to the unknown source.\<close>

definition squadSource :: "obj \<Rightarrow> obj" where
  "squadSource data =
     (if strict_eq (data ''origin'') (JStr PostOrigin_Squad)
      then data(''sourceId'' := JStr UNKNOWN_SOURCE) else data)"

definition updatePost ::
  "store \<Rightarrow> obj \<Rightarrow> string \<Rightarrow> string list \<Rightarrow> string list \<Rightarrow> string option
     \<Rightarrow> error + ret \<times> store" where
  "updatePost s data0 pid mergedKeywords questions content_type0 =
     (let ctype = (case content_type0 of None \<Rightarrow> PostType_value Article | Some c \<Rightarrow> c)
      in case contentTypeFromPostType ctype of
           None \<Rightarrow> Inl RepositoryNotFoundError
         | Some postType \<Rightarrow>
             (let data = squadSource data0
              in case findOneBy_id s postType pid of
                   None \<Rightarrow> Inr (RetNull, s)
                 | Some databasePost \<Rightarrow>
                     (case stale databasePost data of
                        Inl err \<Rightarrow> Inl err
                      | Inr True \<Rightarrow> Inr (RetNull, s)
                      | Inr False \<Rightarrow>
                          persistUpdate s postType ctype databasePost data mergedKeywords
                            questions)))"

subsection \<open>getSourcePrivacy and fixData\<close>

text \<open>Without a usable source id the source is found through the post of the event
  (the source that has a post with the id \<open>post_id\<close>), otherwise by its id.\<close>

definition getSourcePrivacy :: "store \<Rightarrow> Data \<Rightarrow> jsval" where
  "getSourcePrivacy s data =
     (let source =
            (if \<not> truthy (ostr (source_id data)) \<or> source_id data = Some UNKNOWN_SOURCE
             then find (\<lambda>src. \<exists>p \<in> set (posts s).
                                 sql_eq (p ''sourceId'') (JStr (src_id src))
                                 \<and> sql_eq (p ''id'') (ostr (post_id data)))
                    (sources s)
             else find (\<lambda>src. src_id src = the (source_id data)) (sources s))
      in case source of None \<Rightarrow> Undefined | Some src \<Rightarrow> JBool (src_private src))"

definition fixData :: "env \<Rightarrow> store \<Rightarrow> Data \<Rightarrow> string list \<times> string list \<times> string option \<times> obj" where
  "fixData e s data =
     (let creatorTwitter =
            (if extra_field data creator_twitter = Some []
                \<or> extra_field data creator_twitter = Some ''@''
             then Null else ostr (extra_field data creator_twitter));
          authorId = findAuthor e creatorTwitter;
          privacy = getSourcePrivacy s data;
          (allowedKeywords, mergedKeywords) = mergeKeywords e (extra_field data keywords');
          becomesVisible = truthy (opt_length (ostr (title data)));
          fixedData = empty_obj
            (''origin'' := ostr (origin data),
             ''authorId'' := authorId,
             ''creatorTwitter'' := creatorTwitter,
             ''url'' := ostr (url data),
             ''canonicalUrl'' := js_or (ostr (extra_field data canonical_url)) (ostr (url data)),
             ''image'' := ostr (image' data),
             ''sourceId'' := ostr (source_id data),
             ''title'' := js_and (ostr (title data))
                            (JStr (he_decode e (case title data of None \<Rightarrow> [] | Some t \<Rightarrow> t))),
             ''readTime'' := parseReadTime e (onum (extra_field data read_time)),
             ''publishedAt'' := js_and (onum (published_at data))
                                  (new_Date (case published_at data of None \<Rightarrow> 0 | Some n \<Rightarrow> n)),
             ''metadataChangedAt'' :=
                js_or (js_and (onum (updated_at data))
                         (new_Date (case updated_at data of None \<Rightarrow> 0 | Some n \<Rightarrow> n)))
                  (JDate (now_metadata e)),
             ''visible'' := JBool becomesVisible,
             ''visibleAt'' := (if becomesVisible then JDate (now_visible e) else Null),
             ''tagsStr'' := js_or (JStr (join_comma allowedKeywords)) Null,
             ''private'' := privacy,
             ''sentAnalyticsReport'' := js_or privacy (JBool (\<not> truthy authorId)),
             ''summary'' := ostr (extra_field data summary),
             ''description'' := ostr (extra_field data description),
             ''siteTwitter'' := ostr (extra_field data site_twitter),
             ''toc'' := (case extra data of None \<Rightarrow> Undefined | Some x \<Rightarrow> toc x),
             ''contentCuration'' := oarr (extra_field data content_curation),
             ''showOnFeed'' := JBool (\<not> truthy (onum (order' data))),
             ''flags'' := JObj
                [(''private'', privacy),
                 (''visible'', JBool becomesVisible),
                 (''showOnFeed'', JBool (\<not> truthy (onum (order' data)))),
                 (''sentAnalyticsReport'', js_or privacy (JBool (\<not> truthy authorId)))],
             ''yggdrasilId'' := ostr (id' data))
      in (mergedKeywords,
          (case extra_field data questions' of None \<Rightarrow> [] | Some qs \<Rightarrow> qs),
          content_type data,
          fixedData))"

subsection \<open>The handler\<close>

text \<open>One event, inside one transaction: an exception rolls the transaction back and
  is logged, so the store is the one before the event.\<close>

definition committed :: "store \<Rightarrow> error + ret \<times> store \<Rightarrow> store" where
  "committed s result = (case result of Inl err \<Rightarrow> s | Inr (r, s') \<Rightarrow> s')"

definition handler :: "env \<Rightarrow> store \<Rightarrow> Data \<Rightarrow> store" where
  "handler e s data =
     (if truthy (ostr (reject_reason data)) then handleRejection e s data
      else if (case extra_field data creator_twitter of
                 None \<Rightarrow> False
               | Some c \<Rightarrow> c \<in> set (bannedAuthors e))
      then s
      else
        (let (mergedKeywords, questions, ctype, fixedData) = fixData e s data
         in if \<not> truthy (ostr (post_id data))
            then snd (createPost e s fixedData (submission_id data) mergedKeywords questions)
            else committed s
                   (updatePost s fixedData (the (post_id data)) mergedKeywords questions ctype)))"

section \<open>Notions used in the statements\<close>

text \<open>The row \<open>createPost\<close> inserts for the data it is left with after the submission
  block.\<close>

definition newPost :: "env \<Rightarrow> obj \<Rightarrow> obj" where
  "newPost e data1 =
     data1(''id'' := JStr (generateShortId e), ''shortId'' := JStr (generateShortId e),
           ''createdAt'' := JDate (now_created e),
           ''score'' := JNum (now_created e div (1000 * 60)),
           ''origin'' := (if truthy (data1 ''scoutId'') then JStr PostOrigin_CommunityPicks
                          else js_nullish (data1 ''origin'') (JStr PostOrigin_Crawler)),
           ''type'' := JStr (PostType_value Article))"

text \<open>What a text column of the store holds: a string or \<open>null\<close>.\<close>

definition text_column :: "jsval \<Rightarrow> bool" where
  "text_column v = (case v of Null \<Rightarrow> True | JStr t \<Rightarrow> True | _ \<Rightarrow> False)"

text \<open>The keywords of a stored tag string: its comma-separated pieces; none for an
  empty or missing tag string.\<close>

definition storedKeywords :: "jsval \<Rightarrow> string list" where
  "storedKeywords v = (case v of JStr t \<Rightarrow> (if t = [] then [] else split_comma t) | _ \<Rightarrow> [])"

text \<open>The fields a Freeform update may persist: the allowlist of the content type and
  the fields that are always kept.\<close>

definition freeformKept :: "string list" where
  "freeformKept =
     [''contentCuration'', ''description'', ''metadataChangedAt'', ''readTime'', ''summary'',
      ''tagsStr'', ''id'', ''visible'', ''visibleAt'', ''flags'', ''yggdrasilId'']"

text \<open>The time values of the years 0000 to 9999, whose ISO strings have a four-digit
  year: from 0000-01-01T00:00:00.000Z up to 9999-12-31T23:59:59.999Z.\<close>

definition fourDigitYear :: "int \<Rightarrow> bool" where
  "fourDigitYear t = (- 62167219200000 \<le> t \<and> t < 253402300800000)"

subsection \<open>Example inputs\<close>

definition ex_env :: env where
  "ex_env =
     \<lparr>findAuthor = (\<lambda>v. if v = JStr ''@alice'' then JStr ''u1'' else Null),
      mergeKeywords = (\<lambda>k. case k of None \<Rightarrow> ([], []) | Some ks \<Rightarrow> (ks, ks)),
      he_decode = (\<lambda>x. x),
      parseReadTime = (\<lambda>v. v),
      generateShortId = ''abc'',
      now_metadata = 1700000000000,
      now_visible = 1700000000001,
      now_created = 1700000000002,
      bannedAuthors = [],
      SubmissionFailErrorMessage = [''GENERIC_ERROR'', ''SCOUT_IS_AUTHOR'', ''PAYWALL'']\<rparr>"

definition ex_article :: obj where
  "ex_article =
     empty_obj(''id'' := JStr ''p1'', ''type'' := JStr ''article'',
               ''url'' := JStr ''http://x.com/a?ref=1'',
               ''canonicalUrl'' := JStr ''http://x.com/a'',
               ''title'' := JStr ''Hello'', ''visible'' := JBool True,
               ''visibleAt'' := JDate 1600000000000,
               ''metadataChangedAt'' := JDate 1600000000000,
               ''tagsStr'' := JStr ''a,b'')"

definition ex_freeform :: obj where
  "ex_freeform =
     empty_obj(''id'' := JStr ''f1'', ''type'' := JStr ''freeform'',
               ''title'' := JStr ''My post'', ''visible'' := JBool True,
               ''visibleAt'' := JDate 1600000000000,
               ''metadataChangedAt'' := JDate 1600000000000,
               ''tagsStr'' := Null)"

definition ex_submission :: Submission where
  "ex_submission = \<lparr>sub_id = ''s1'', userId = ''u1'', status = Started, reason = None\<rparr>"

definition ex_store :: store where
  "ex_store =
     \<lparr>posts = [ex_article, ex_freeform], submissions = [ex_submission],
      postKeywords = {(JStr ''p1'', ''a''), (JStr ''p1'', ''b'')}, postQuestions = {},
      sources = []\<rparr>"

text \<open>Incoming data of a create event: the same canonical url as the stored article
  (\<open>ex_incoming\<close>), and a url nobody has yet (\<open>ex_fresh\<close>).\<close>

definition ex_incoming :: obj where
  "ex_incoming =
     empty_obj(''url'' := JStr ''http://x.com/a'', ''canonicalUrl'' := JStr ''http://x.com/a'',
               ''title'' := JStr ''Hello again'', ''authorId'' := JStr ''u1'',
               ''visible'' := JBool True, ''visibleAt'' := JDate 1700000000001,
               ''metadataChangedAt'' := JDate 1700000000000)"

definition ex_fresh :: obj where
  "ex_fresh =
     ex_incoming(''url'' := JStr ''http://y.com/b'', ''canonicalUrl'' := JStr ''http://y.com/b'')"

text \<open>Incoming data of an update event, with the tag string \<open>b,c\<close>.\<close>

definition ex_update :: obj where
  "ex_update =
     empty_obj(''url'' := JStr ''http://x.com/a'', ''canonicalUrl'' := JStr ''http://x.com/a'',
               ''title'' := JStr ''Hello, updated'', ''summary'' := JStr ''A summary'',
               ''visible'' := JBool True, ''visibleAt'' := JDate 1700000000001,
               ''metadataChangedAt'' := JDate 1700000000000,
               ''tagsStr'' := JStr ''b,c'')"

text \<open>The same update with a metadata timestamp in the year 10000
  (10000-01-01T00:00:00.000Z).\<close>

definition ex_update_far :: obj where
  "ex_update_far = ex_update(''metadataChangedAt'' := JDate 253402300800000)"

text \<open>An event without a post id (a create event) and its variants.\<close>

definition ex_event :: Data where
  "ex_event =
     \<lparr>id' = Some ''y1'', post_id = None, url = Some ''http://y.com/b'', image' = None,
      title = Some ''Hello'', content_type = None, reject_reason = None, submission_id = None,
      source_id = None, origin = None, published_at = None, updated_at = None, paid = None,
      order' = None, extra = None\<rparr>"

definition ex_event_untitled :: Data where
  "ex_event_untitled = ex_event\<lparr>title := None\<rparr>"

text \<open>Events that refer to the submission \<open>s1\<close>: a rejection whose reason is a
  property name every object inherits, a create event of an unknown author, and a create
  event of the author who owns the submission.\<close>

definition ex_event_rejection :: Data where
  "ex_event_rejection =
     ex_event\<lparr>reject_reason := Some ''constructor'', submission_id := Some ''s1''\<rparr>"

definition ex_event_submitted :: Data where
  "ex_event_submitted = ex_event\<lparr>submission_id := Some ''s1''\<rparr>"

definition ex_event_alice :: Data where
  "ex_event_alice =
     ex_event\<lparr>submission_id := Some ''s1'',
              extra := Some \<lparr>keywords' = None, questions' = None, summary = None,
                             description = None, read_time = None, canonical_url = None,
                             site_twitter = None, creator_twitter = Some ''@alice'',
                             toc = Undefined, content_curation = None\<rparr>\<rparr>"

text \<open>Stores whose submission is already in a terminal state, and one whose article
  carries a metadata timestamp in the year 10000.\<close>

definition ex_store_rejected :: store where
  "ex_store_rejected =
     ex_store\<lparr>submissions := [ex_submission\<lparr>status := Rejected, reason := Some ''PAYWALL''\<rparr>]\<rparr>"

definition ex_store_accepted :: store where
  "ex_store_accepted = ex_store\<lparr>submissions := [ex_submission\<lparr>status := Accepted\<rparr>]\<rparr>"

definition ex_article_far :: obj where
  "ex_article_far = ex_article(''metadataChangedAt'' := JDate 253402300800000)"

definition ex_store_far :: store where
  "ex_store_far = ex_store\<lparr>posts := [ex_article_far]\<rparr>"

lemmas ex_defs = ex_env_def ex_article_def ex_freeform_def ex_submission_def ex_store_def
  ex_incoming_def ex_fresh_def ex_update_def ex_update_far_def ex_event_def
  ex_event_untitled_def
  ex_event_rejection_def
  ex_event_submitted_def ex_event_alice_def ex_store_rejected_def ex_store_accepted_def
  ex_article_far_def ex_store_far_def empty_obj_def

section \<open>The order of ISO strings\<close>

text \<open>The year search finds the year of the day as the standard defines it.\<close>

lemma year_search_upper: "d < DayFromYear (year_search d y + 1)"
  by (induction d y rule: year_search.induct) (simp add: year_search.simps)

lemma year_search_lower: "DayFromYear y \<le> d \<Longrightarrow> DayFromYear (year_search d y) \<le> d"
  by (induction d y rule: year_search.induct) (simp add: year_search.simps)


lemma DayFromYear_1970 [simp]: "DayFromYear 1970 = 0"
  by (simp add: DayFromYear_def)

lemma DayFromYear_upper: "0 \<le> k \<Longrightarrow> DayFromYear (1970 + k) \<le> 366 * k"
proof (induction k rule: int_ge_induct)
  case base
  then show ?case by simp
next
  case (step i)
  have "DayFromYear (1970 + (i + 1)) = DayFromYear (1970 + i) + DaysInYear (1970 + i)"
    using DayFromYear_Suc [of "1970 + i"] by (simp add: algebra_simps)
  then show ?case using step DaysInYear_bounds [of "1970 + i"] by (simp add: algebra_simps)
qed

lemma DayFromYear_lower: "k \<le> 0 \<Longrightarrow> DayFromYear (1970 + k) \<le> 365 * k"
proof (induction k rule: int_le_induct)
  case base
  then show ?case by simp
next
  case (step i)
  have "DayFromYear (1970 + i) = DayFromYear (1970 + (i - 1)) + DaysInYear (1970 + (i - 1))"
    using DayFromYear_Suc [of "1970 + (i - 1)"] by (simp add: algebra_simps)
  then show ?case using step DaysInYear_bounds [of "1970 + (i - 1)"] by (simp add: algebra_simps)
qed

lemma year_start_le: "DayFromYear (year_start d) \<le> d"
proof (cases "0 \<le> d")
  case True
  then have "0 \<le> d div 366" by simp
  then have "DayFromYear (1970 + d div 366) \<le> 366 * (d div 366)"
    by (rule DayFromYear_upper)
  moreover have "366 * (d div 366) \<le> d"
    using mult_div_mod_eq [of 366 d] pos_mod_sign [of 366 d] by linarith
  ultimately show ?thesis using True by (simp add: year_start_def)
next
  case False
  then have "d div 365 < 0" by (simp add: neg_imp_zdiv_neg_iff)
  then have "d div 365 \<le> 0" by simp
  then have "DayFromYear (1970 + d div 365) \<le> 365 * (d div 365)"
    by (rule DayFromYear_lower)
  moreover have "365 * (d div 365) \<le> d"
    using mult_div_mod_eq [of 365 d] pos_mod_sign [of 365 d] by linarith
  ultimately show ?thesis using False by (simp add: year_start_def)
qed

text \<open>The year of a day, as the standard defines it.\<close>

lemma YearFromDay_spec:
  "DayFromYear (YearFromDay d) \<le> d \<and> d < DayFromYear (YearFromDay d + 1)"
  unfolding YearFromDay_def
  using year_search_lower [OF year_start_le] year_search_upper by simp

lemma DayFromYear_mono_aux: "0 \<le> k \<Longrightarrow> DayFromYear y + 365 * k \<le> DayFromYear (y + k)"
proof (induction k rule: int_ge_induct)
  case base
  then show ?case by simp
next
  case (step i)
  have "DayFromYear (y + (i + 1)) = DayFromYear (y + i) + DaysInYear (y + i)"
    using DayFromYear_Suc [of "y + i"] by (simp add: algebra_simps)
  then show ?case using step DaysInYear_bounds [of "y + i"] by (simp add: algebra_simps)
qed

lemma DayFromYear_mono: "y1 \<le> y2 \<Longrightarrow> DayFromYear y1 \<le> DayFromYear y2"
  using DayFromYear_mono_aux [of "y2 - y1" y1] by simp

lemma YearFromDay_unique:
  assumes "DayFromYear y \<le> d" and "d < DayFromYear (y + 1)"
  shows "YearFromDay d = y"
proof (rule ccontr)
  assume n: "YearFromDay d \<noteq> y"
  show False
  proof (cases "YearFromDay d < y")
    case True
    then have "DayFromYear (YearFromDay d + 1) \<le> DayFromYear y"
      by (intro DayFromYear_mono) simp
    then show False using YearFromDay_spec [of d] assms by linarith
  next
    case False
    with n have "y + 1 \<le> YearFromDay d" by simp
    then have "DayFromYear (y + 1) \<le> DayFromYear (YearFromDay d)"
      by (rule DayFromYear_mono)
    then show False using YearFromDay_spec [of d] assms by linarith
  qed
qed

lemma YearFromDay_mono: "d1 \<le> d2 \<Longrightarrow> YearFromDay d1 \<le> YearFromDay d2"
proof (rule ccontr)
  assume a: "d1 \<le> d2" and "\<not> YearFromDay d1 \<le> YearFromDay d2"
  then have "YearFromDay d2 + 1 \<le> YearFromDay d1" by simp
  then have "DayFromYear (YearFromDay d2 + 1) \<le> DayFromYear (YearFromDay d1)"
    by (rule DayFromYear_mono)
  then show False using YearFromDay_spec [of d1] YearFromDay_spec [of d2] a by linarith
qed

text \<open>Numbers printed with a fixed number of digits are ordered as strings in the way
  they are ordered as numbers.\<close>

lemma div_less_imp_less:
  fixes x y n :: int
  assumes "0 < n" "x div n < y div n"
  shows "x < y"
proof -
  have "x div n + 1 \<le> y div n" using assms by simp
  then have "n * (x div n + 1) \<le> n * (y div n)"
    using assms by (intro mult_left_mono) simp_all
  then have A: "n * (x div n) + n \<le> n * (y div n)"
    by (simp add: distrib_left)
  have m: "x mod n < n" "0 \<le> y mod n" using assms by simp_all
  have "x = n * (x div n) + x mod n" by simp
  also have "\<dots> < n * (x div n) + n" using m(1) by (rule add_strict_left_mono)
  also have "\<dots> \<le> n * (y div n)" by (rule A)
  also have "\<dots> \<le> n * (y div n) + y mod n"
    by (rule le_add_same_cancel1 [THEN iffD2, OF m(2)])
  also have "\<dots> = y" by simp
  finally show "x < y" .
qed

lemma div_eq_less_iff:
  fixes x y n :: int
  assumes "x div n = y div n"
  shows "x < y \<longleftrightarrow> x mod n < y mod n"
proof -
  have "x mod n < y mod n \<longleftrightarrow> n * (x div n) + x mod n < n * (x div n) + y mod n"
    by (simp only: add_less_cancel_left)
  also have "n * (x div n) + x mod n = x" by simp
  also have "n * (x div n) + y mod n = y" unfolding assms by simp
  finally show ?thesis by simp
qed

lemma lex_div:
  fixes a b n :: int
  assumes "0 < n"
  shows "a < b \<longleftrightarrow> a div n < b div n \<or> (a div n = b div n \<and> a mod n < b mod n)"
proof (cases "a div n = b div n")
  case True
  then show ?thesis using div_eq_less_iff [of a n b] by simp
next
  case False
  then have "a div n < b div n \<or> b div n < a div n" by linarith
  then show ?thesis
  proof
    assume l: "a div n < b div n"
    then have "a < b" using assms by (intro div_less_imp_less [of n a b])
    with l show ?thesis by simp
  next
    assume l: "b div n < a div n"
    then have "b < a" using assms by (intro div_less_imp_less [of n b a])
    with l show ?thesis by simp
  qed
qed

lemma digit_table:
  "\<forall>k \<in> {0, 1, 2, 3, 4, 5, 6, 7, 8, 9}. of_char (''0123456789'' ! k) = (48 + k :: nat)"
  by simp

lemma below_ten: "(k::nat) < 10 \<Longrightarrow> k \<in> {0, 1, 2, 3, 4, 5, 6, 7, 8, 9}"
  by auto

lemma digit_code: "of_char (digit n) = (48 + nat (n mod 10) :: nat)"
proof -
  have "nat (n mod 10) < 10" by (simp add: nat_less_iff)
  then have "nat (n mod 10) \<in> {0, 1, 2, 3, 4, 5, 6, 7, 8, 9}" by (rule below_ten)
  then show ?thesis using digit_table unfolding digit_def by blast
qed

lemma digit_less: "(of_char (digit a) :: nat) < of_char (digit b) \<longleftrightarrow> a mod 10 < b mod 10"
  using pos_mod_sign [of 10 a] by (auto simp: digit_code nat_less_eq_zless)

lemma digit_eq: "digit a = digit b \<longleftrightarrow> a mod 10 = b mod 10"
proof -
  have "digit a = digit b \<longleftrightarrow> (of_char (digit a) :: nat) = of_char (digit b)"
    by simp
  then show ?thesis by (simp add: digit_code nat_eq_iff)
qed

lemma str_less_append:
  "length p1 = length p2 \<Longrightarrow>
     str_less (p1 @ r1) (p2 @ r2) \<longleftrightarrow> str_less p1 p2 \<or> (p1 = p2 \<and> str_less r1 r2)"
  by (induction p1 p2 rule: list_induct2) auto

lemma str_less_irrefl [simp]: "\<not> str_less p p"
  by (induction p) auto

text \<open>One more digit: if \<open>P\<close> prints the numbers below \<open>B\<close> in a fixed width and in
  order, then \<open>P (a div 10) @ [digit a]\<close> does so for the numbers below \<open>10 * B\<close>.\<close>

lemma pad_step:
  fixes P :: "int \<Rightarrow> string"
  assumes P: "\<And>x y. 0 \<le> x \<Longrightarrow> x < B \<Longrightarrow> 0 \<le> y \<Longrightarrow> y < B \<Longrightarrow>
                 (str_less (P x) (P y) \<longleftrightarrow> x < y) \<and> (P x = P y \<longleftrightarrow> x = y)
                 \<and> length (P x) = length (P y)"
    and "0 \<le> a" "a < 10 * B" "0 \<le> b" "b < 10 * B"
  shows "(str_less (P (a div 10) @ [digit a]) (P (b div 10) @ [digit b]) \<longleftrightarrow> a < b)
         \<and> (P (a div 10) @ [digit a] = P (b div 10) @ [digit b] \<longleftrightarrow> a = b)
         \<and> length (P (a div 10) @ [digit a]) = length (P (b div 10) @ [digit b])"
proof -
  have qa: "0 \<le> a div 10" "a div 10 < B"
    using assms(2,3) mult_div_mod_eq [of 10 a] pos_mod_sign [of 10 a] by linarith+
  have qb: "0 \<le> b div 10" "b div 10 < B"
    using assms(4,5) mult_div_mod_eq [of 10 b] pos_mod_sign [of 10 b] by linarith+
  note p = P [OF qa qb]
  have l: "str_less (P (a div 10) @ [digit a]) (P (b div 10) @ [digit b]) \<longleftrightarrow>
           a div 10 < b div 10 \<or> (a div 10 = b div 10 \<and> a mod 10 < b mod 10)"
    using p by (simp add: str_less_append digit_less)
  have e: "P (a div 10) @ [digit a] = P (b div 10) @ [digit b] \<longleftrightarrow>
           a div 10 = b div 10 \<and> a mod 10 = b mod 10"
    using p by (simp add: digit_eq)
  have "a = b \<longleftrightarrow> a div 10 = b div 10 \<and> a mod 10 = b mod 10"
  proof
    assume "a = b"
    then show "a div 10 = b div 10 \<and> a mod 10 = b mod 10" by simp
  next
    assume "a div 10 = b div 10 \<and> a mod 10 = b mod 10"
    then have "10 * (a div 10) + a mod 10 = 10 * (b div 10) + b mod 10" by simp
    then show "a = b" by (simp only: mult_div_mod_eq)
  qed
  then show ?thesis
    using l e p lex_div [of 10 a b] by simp
qed

lemma pad1_order:
  assumes "0 \<le> x" "x < 10" "0 \<le> y" "y < 10"
  shows "(str_less [digit x] [digit y] \<longleftrightarrow> x < y) \<and> ([digit x] = [digit y] \<longleftrightarrow> x = y)
         \<and> length [digit x] = length [digit y]"
  using assms by (simp add: digit_less digit_eq)

lemma pad2_order:
  assumes "0 \<le> x" "x < 100" "0 \<le> y" "y < 100"
  shows "(str_less (pad2 x) (pad2 y) \<longleftrightarrow> x < y) \<and> (pad2 x = pad2 y \<longleftrightarrow> x = y)
         \<and> length (pad2 x) = length (pad2 y)"
  using pad_step [of 10 "\<lambda>n. [digit n]" x y, OF pad1_order] assms
  by (simp add: pad2_def)

lemma pad3_alt: "pad3 n = pad2 (n div 10) @ [digit n]"
proof -
  have "n div 100 = n div 10 div 10"
    using zdiv_zmult2_eq [where a = n and b = 10 and c = 10] by simp
  then show ?thesis by (simp add: pad3_def pad2_def)
qed

lemma pad4_alt: "pad4 n = pad3 (n div 10) @ [digit n]"
proof -
  have "n div 100 = n div 10 div 10"
    using zdiv_zmult2_eq [where a = n and b = 10 and c = 10] by simp
  moreover have "n div 1000 = n div 10 div 100"
    using zdiv_zmult2_eq [where a = n and b = 10 and c = 100] by simp
  ultimately show ?thesis by (simp add: pad4_def pad3_def)
qed

lemma pad3_order:
  assumes "0 \<le> x" "x < 1000" "0 \<le> y" "y < 1000"
  shows "(str_less (pad3 x) (pad3 y) \<longleftrightarrow> x < y) \<and> (pad3 x = pad3 y \<longleftrightarrow> x = y)
         \<and> length (pad3 x) = length (pad3 y)"
  unfolding pad3_alt
  using pad_step [of 100 pad2 x y, OF pad2_order] assms by simp

lemma pad4_order:
  assumes "0 \<le> x" "x < 10000" "0 \<le> y" "y < 10000"
  shows "(str_less (pad4 x) (pad4 y) \<longleftrightarrow> x < y) \<and> (pad4 x = pad4 y \<longleftrightarrow> x = y)
         \<and> length (pad4 x) = length (pad4 y)"
  unfolding pad4_alt
  using pad_step [of 1000 pad3 x y, OF pad3_order] assms by simp

lemma DayWithinYear_bounds:
  "0 \<le> DayWithinYear t \<and> DayWithinYear t < 365 + InLeapYear t"
proof -
  have "DayFromYear (YearFromTime t + 1) = DayFromYear (YearFromTime t) + DaysInYear (YearFromTime t)"
    by (rule DayFromYear_Suc)
  moreover have "DaysInYear (YearFromTime t) = 365 + InLeapYear t"
    by (simp add: InLeapYear_def DaysInYear_def)
  ultimately show ?thesis
    using YearFromDay_spec [of "Day t"] by (simp add: DayWithinYear_def YearFromTime_def)
qed

lemma InLeapYear_cases: "InLeapYear t = 0 \<or> InLeapYear t = 1"
  by (simp add: InLeapYear_def)

text \<open>Month and date of a day within the year, as functions of the day and the leap
  flag, for the comparison of two days of the same year.\<close>

lemma month_date_lex:
  assumes l: "InLeapYear t1 = InLeapYear t2"
  shows "DayWithinYear t1 < DayWithinYear t2 \<longleftrightarrow>
           MonthFromTime t1 < MonthFromTime t2
           \<or> (MonthFromTime t1 = MonthFromTime t2 \<and> DateFromTime t1 < DateFromTime t2)"
proof -
  define w1 w2 k where "w1 = DayWithinYear t1" and "w2 = DayWithinYear t2" and "k = InLeapYear t2"
  have k: "k = 0 \<or> k = 1" using InLeapYear_cases [of t2] by (simp add: k_def)
  have b: "0 \<le> w1" "0 \<le> w2"
    using DayWithinYear_bounds [of t1] DayWithinYear_bounds [of t2] by (simp_all add: w1_def w2_def)
  show ?thesis
    unfolding DateFromTime_def MonthFromTime_def Let_def l
    unfolding w1_def [symmetric] w2_def [symmetric] k_def [symmetric]
    using k b by (elim disjE) (simp_all, linarith+)
qed


lemma month_date_eq:
  assumes l: "InLeapYear t1 = InLeapYear t2"
    and m: "MonthFromTime t1 = MonthFromTime t2" and d: "DateFromTime t1 = DateFromTime t2"
  shows "DayWithinYear t1 = DayWithinYear t2"
  using month_date_lex [OF l] month_date_lex [OF l [symmetric]] m d by linarith

lemma month_date_bounds:
  "0 \<le> MonthFromTime t \<and> MonthFromTime t \<le> 11 \<and> 1 \<le> DateFromTime t \<and> DateFromTime t \<le> 31"
proof -
  define w k where "w = DayWithinYear t" and "k = InLeapYear t"
  have k: "k = 0 \<or> k = 1" using InLeapYear_cases [of t] by (simp add: k_def)
  have b: "0 \<le> w" "w < 365 + k"
    using DayWithinYear_bounds [of t] by (simp_all add: w_def k_def)
  show ?thesis
    unfolding DateFromTime_def MonthFromTime_def Let_def
    unfolding w_def [symmetric] k_def [symmetric]
    using k b by (elim disjE) auto
qed

lemma Day_split: "Day t = DayFromYear (YearFromTime t) + DayWithinYear t"
  by (simp add: DayWithinYear_def)

text \<open>Days compare as their (year, month, date) triples.\<close>

lemma Day_lex:
  "Day t1 < Day t2 \<longleftrightarrow>
     YearFromTime t1 < YearFromTime t2
     \<or> (YearFromTime t1 = YearFromTime t2
         \<and> (MonthFromTime t1 < MonthFromTime t2
             \<or> (MonthFromTime t1 = MonthFromTime t2 \<and> DateFromTime t1 < DateFromTime t2)))"
proof (cases "YearFromTime t1 = YearFromTime t2")
  case True
  then have l: "InLeapYear t1 = InLeapYear t2" by (simp add: InLeapYear_def)
  have "Day t1 < Day t2 \<longleftrightarrow> DayWithinYear t1 < DayWithinYear t2"
    using True by (simp add: DayWithinYear_def)
  then show ?thesis using month_date_lex [OF l] True by simp
next
  case False
  then have "YearFromTime t1 < YearFromTime t2 \<or> YearFromTime t2 < YearFromTime t1"
    by linarith
  then show ?thesis
  proof
    assume y: "YearFromTime t1 < YearFromTime t2"
    then have "DayFromYear (YearFromTime t1 + 1) \<le> DayFromYear (YearFromTime t2)"
      by (intro DayFromYear_mono) simp
    then have "Day t1 < Day t2"
      using YearFromDay_spec [of "Day t1"] YearFromDay_spec [of "Day t2"]
      by (simp add: YearFromTime_def)
    with y show ?thesis by simp
  next
    assume y: "YearFromTime t2 < YearFromTime t1"
    then have "DayFromYear (YearFromTime t2 + 1) \<le> DayFromYear (YearFromTime t1)"
      by (intro DayFromYear_mono) simp
    then have "Day t2 < Day t1"
      using YearFromDay_spec [of "Day t1"] YearFromDay_spec [of "Day t2"]
      by (simp add: YearFromTime_def)
    with y show ?thesis by simp
  qed
qed

lemma Day_eq:
  "Day t1 = Day t2 \<longleftrightarrow>
     YearFromTime t1 = YearFromTime t2 \<and> MonthFromTime t1 = MonthFromTime t2
     \<and> DateFromTime t1 = DateFromTime t2"
proof
  assume e: "Day t1 = Day t2"
  then have y: "YearFromTime t1 = YearFromTime t2" by (simp add: YearFromTime_def)
  then have "DayWithinYear t1 = DayWithinYear t2" "InLeapYear t1 = InLeapYear t2"
    using e by (simp_all add: DayWithinYear_def InLeapYear_def)
  then have "MonthFromTime t1 = MonthFromTime t2"
    by (simp add: MonthFromTime_def)
  moreover from this have "DateFromTime t1 = DateFromTime t2"
    using \<open>DayWithinYear t1 = DayWithinYear t2\<close> \<open>InLeapYear t1 = InLeapYear t2\<close>
    by (simp add: DateFromTime_def)
  ultimately show "YearFromTime t1 = YearFromTime t2 \<and> MonthFromTime t1 = MonthFromTime t2
     \<and> DateFromTime t1 = DateFromTime t2" using y by simp
next
  assume a: "YearFromTime t1 = YearFromTime t2 \<and> MonthFromTime t1 = MonthFromTime t2
     \<and> DateFromTime t1 = DateFromTime t2"
  then have l: "InLeapYear t1 = InLeapYear t2" by (simp add: InLeapYear_def)
  have "DayWithinYear t1 = DayWithinYear t2"
    using month_date_eq [OF l] a by simp
  then show "Day t1 = Day t2" using a Day_split [of t1] Day_split [of t2] by simp
qed

text \<open>Time values compare as their (day, hour, minute, second, millisecond) tuples.\<close>

lemma div_div_1000_60: "(t::int) div 1000 div 60 = t div 60000"
  using zdiv_zmult2_eq [where a = t and b = 1000 and c = 60] by simp

lemma div_div_60000_60: "(t::int) div 60000 div 60 = t div 3600000"
  using zdiv_zmult2_eq [where a = t and b = 60000 and c = 60] by simp

lemma div_div_3600000_24: "(t::int) div 3600000 div 24 = Day t"
  using zdiv_zmult2_eq [where a = t and b = 3600000 and c = 24] by (simp add: Day_def msPerDay_def)

lemma div_mod_eq_iff:
  fixes a b n :: int
  shows "a = b \<longleftrightarrow> a div n = b div n \<and> a mod n = b mod n"
proof
  assume "a = b"
  then show "a div n = b div n \<and> a mod n = b mod n" by simp
next
  assume "a div n = b div n \<and> a mod n = b mod n"
  then have "n * (a div n) + a mod n = n * (b div n) + b mod n" by simp
  then show "a = b" by (simp only: mult_div_mod_eq)
qed

lemma time_lex:
  "t1 < t2 \<longleftrightarrow>
     Day t1 < Day t2
     \<or> (Day t1 = Day t2
         \<and> (HourFromTime t1 < HourFromTime t2
             \<or> (HourFromTime t1 = HourFromTime t2
                 \<and> (MinFromTime t1 < MinFromTime t2
                     \<or> (MinFromTime t1 = MinFromTime t2
                         \<and> (SecFromTime t1 < SecFromTime t2
                             \<or> (SecFromTime t1 = SecFromTime t2
                                 \<and> msFromTime t1 < msFromTime t2)))))))"
proof -
  have a: "t1 < t2 \<longleftrightarrow> t1 div 1000 < t2 div 1000
             \<or> (t1 div 1000 = t2 div 1000 \<and> msFromTime t1 < msFromTime t2)"
    using lex_div [of 1000 t1 t2] by (simp add: msFromTime_def)
  have b: "t1 div 1000 < t2 div 1000 \<longleftrightarrow> t1 div 60000 < t2 div 60000
             \<or> (t1 div 60000 = t2 div 60000 \<and> SecFromTime t1 < SecFromTime t2)"
    using lex_div [of 60 "t1 div 1000" "t2 div 1000"] by (simp add: SecFromTime_def div_div_1000_60)
  have b': "t1 div 1000 = t2 div 1000 \<longleftrightarrow>
              t1 div 60000 = t2 div 60000 \<and> SecFromTime t1 = SecFromTime t2"
    using div_mod_eq_iff [of "t1 div 1000" "t2 div 1000" 60]
    by (simp add: SecFromTime_def div_div_1000_60)
  have c: "t1 div 60000 < t2 div 60000 \<longleftrightarrow> t1 div 3600000 < t2 div 3600000
             \<or> (t1 div 3600000 = t2 div 3600000 \<and> MinFromTime t1 < MinFromTime t2)"
    using lex_div [of 60 "t1 div 60000" "t2 div 60000"] by (simp add: MinFromTime_def div_div_60000_60)
  have c': "t1 div 60000 = t2 div 60000 \<longleftrightarrow>
              t1 div 3600000 = t2 div 3600000 \<and> MinFromTime t1 = MinFromTime t2"
    using div_mod_eq_iff [of "t1 div 60000" "t2 div 60000" 60]
    by (simp add: MinFromTime_def div_div_60000_60)
  have d: "t1 div 3600000 < t2 div 3600000 \<longleftrightarrow> Day t1 < Day t2
             \<or> (Day t1 = Day t2 \<and> HourFromTime t1 < HourFromTime t2)"
    using lex_div [of 24 "t1 div 3600000" "t2 div 3600000"]
    by (simp add: HourFromTime_def div_div_3600000_24)
  have d': "t1 div 3600000 = t2 div 3600000 \<longleftrightarrow>
              Day t1 = Day t2 \<and> HourFromTime t1 = HourFromTime t2"
    using div_mod_eq_iff [of "t1 div 3600000" "t2 div 3600000" 24]
    by (simp add: HourFromTime_def div_div_3600000_24)
  show ?thesis
    unfolding a b b' c c' d d' by blast
qed

lemma time_bounds:
  "0 \<le> HourFromTime t \<and> HourFromTime t < 24 \<and> 0 \<le> MinFromTime t \<and> MinFromTime t < 60
   \<and> 0 \<le> SecFromTime t \<and> SecFromTime t < 60 \<and> 0 \<le> msFromTime t \<and> msFromTime t < 1000"
  by (simp add: HourFromTime_def MinFromTime_def SecFromTime_def msFromTime_def)

lemma DayFromYear_0: "DayFromYear 0 = - 719528"
  by (simp add: DayFromYear_def)

lemma DayFromYear_10000: "DayFromYear 10000 = 2932897"
  by (simp add: DayFromYear_def)

text \<open>The time values of the years 0 to 9999.\<close>

lemma four_digit_year:
  assumes "- 62167219200000 \<le> t" and "t < 253402300800000"
  shows "0 \<le> YearFromTime t \<and> YearFromTime t \<le> 9999"
proof -
  have "(- 62167219200000) div 86400000 \<le> t div (86400000::int)"
    using assms(1) by (intro zdiv_mono1) simp_all
  then have lo: "- 719528 \<le> Day t" by (simp add: Day_def msPerDay_def)
  have "t div 86400000 \<le> 253402300799999 div (86400000::int)"
    using assms(2) by (intro zdiv_mono1) simp_all
  then have hi: "Day t \<le> 2932896" by (simp add: Day_def msPerDay_def)
  have "0 \<le> YearFromTime t"
  proof (rule ccontr)
    assume "\<not> 0 \<le> YearFromTime t"
    then have "YearFromTime t + 1 \<le> 0" by simp
    then have "DayFromYear (YearFromTime t + 1) \<le> DayFromYear 0" by (rule DayFromYear_mono)
    then show False
      using YearFromDay_spec [of "Day t"] lo by (simp add: YearFromTime_def DayFromYear_0)
  qed
  moreover have "YearFromTime t \<le> 9999"
  proof (rule ccontr)
    assume "\<not> YearFromTime t \<le> 9999"
    then have "10000 \<le> YearFromTime t" by simp
    then have "DayFromYear 10000 \<le> DayFromYear (YearFromTime t)" by (rule DayFromYear_mono)
    then show False
      using YearFromDay_spec [of "Day t"] hi by (simp add: YearFromTime_def DayFromYear_10000)
  qed
  ultimately show ?thesis by simp
qed

lemma seg_order:
  assumes "(str_less p1 p2 \<longleftrightarrow> a < b) \<and> (p1 = p2 \<longleftrightarrow> a = b) \<and> length p1 = length p2"
  shows "str_less (p1 @ c # r1) (p2 @ c # r2) \<longleftrightarrow> (a::int) < b \<or> (a = b \<and> str_less r1 r2)"
  using assms by (simp add: str_less_append)

lemma iso_string_four_digit:
  assumes "0 \<le> YearFromTime t" "YearFromTime t \<le> 9999"
  shows "iso_string t =
     pad4 (YearFromTime t) @ CHR ''-'' # (pad2 (MonthFromTime t + 1) @ CHR ''-'' #
     (pad2 (DateFromTime t) @ CHR ''T'' # (pad2 (HourFromTime t) @ CHR '':'' #
     (pad2 (MinFromTime t) @ CHR '':'' # (pad2 (SecFromTime t) @ CHR ''.'' #
     (pad3 (msFromTime t) @ CHR ''Z'' # []))))))"
  using assms by (simp add: iso_string_def year_string_def)

text \<open>For years that print with four digits, the ISO strings are ordered as the time
  values are.\<close>

lemma iso_string_less_iff:
  assumes "0 \<le> YearFromTime t1" "YearFromTime t1 \<le> 9999"
    and "0 \<le> YearFromTime t2" "YearFromTime t2 \<le> 9999"
  shows "str_less (iso_string t1) (iso_string t2) \<longleftrightarrow> t1 < t2"
proof -
  note tb1 = time_bounds [of t1] and tb2 = time_bounds [of t2]
  note mb1 = month_date_bounds [of t1] and mb2 = month_date_bounds [of t2]
  have y: "(str_less (pad4 (YearFromTime t1)) (pad4 (YearFromTime t2))
              \<longleftrightarrow> YearFromTime t1 < YearFromTime t2)
           \<and> (pad4 (YearFromTime t1) = pad4 (YearFromTime t2)
              \<longleftrightarrow> YearFromTime t1 = YearFromTime t2)
           \<and> length (pad4 (YearFromTime t1)) = length (pad4 (YearFromTime t2))"
    using assms by (intro pad4_order) simp_all
  have mo: "(str_less (pad2 (MonthFromTime t1 + 1)) (pad2 (MonthFromTime t2 + 1))
              \<longleftrightarrow> MonthFromTime t1 + 1 < MonthFromTime t2 + 1)
           \<and> (pad2 (MonthFromTime t1 + 1) = pad2 (MonthFromTime t2 + 1)
              \<longleftrightarrow> MonthFromTime t1 + 1 = MonthFromTime t2 + 1)
           \<and> length (pad2 (MonthFromTime t1 + 1)) = length (pad2 (MonthFromTime t2 + 1))"
    using mb1 mb2 by (intro pad2_order) simp_all
  have dd: "(str_less (pad2 (DateFromTime t1)) (pad2 (DateFromTime t2))
              \<longleftrightarrow> DateFromTime t1 < DateFromTime t2)
           \<and> (pad2 (DateFromTime t1) = pad2 (DateFromTime t2)
              \<longleftrightarrow> DateFromTime t1 = DateFromTime t2)
           \<and> length (pad2 (DateFromTime t1)) = length (pad2 (DateFromTime t2))"
    using mb1 mb2 by (intro pad2_order) simp_all
  have hh: "(str_less (pad2 (HourFromTime t1)) (pad2 (HourFromTime t2))
              \<longleftrightarrow> HourFromTime t1 < HourFromTime t2)
           \<and> (pad2 (HourFromTime t1) = pad2 (HourFromTime t2)
              \<longleftrightarrow> HourFromTime t1 = HourFromTime t2)
           \<and> length (pad2 (HourFromTime t1)) = length (pad2 (HourFromTime t2))"
    using tb1 tb2 by (intro pad2_order) simp_all
  have mi: "(str_less (pad2 (MinFromTime t1)) (pad2 (MinFromTime t2))
              \<longleftrightarrow> MinFromTime t1 < MinFromTime t2)
           \<and> (pad2 (MinFromTime t1) = pad2 (MinFromTime t2)
              \<longleftrightarrow> MinFromTime t1 = MinFromTime t2)
           \<and> length (pad2 (MinFromTime t1)) = length (pad2 (MinFromTime t2))"
    using tb1 tb2 by (intro pad2_order) simp_all
  have ss: "(str_less (pad2 (SecFromTime t1)) (pad2 (SecFromTime t2))
              \<longleftrightarrow> SecFromTime t1 < SecFromTime t2)
           \<and> (pad2 (SecFromTime t1) = pad2 (SecFromTime t2)
              \<longleftrightarrow> SecFromTime t1 = SecFromTime t2)
           \<and> length (pad2 (SecFromTime t1)) = length (pad2 (SecFromTime t2))"
    using tb1 tb2 by (intro pad2_order) simp_all
  have ms: "(str_less (pad3 (msFromTime t1)) (pad3 (msFromTime t2))
              \<longleftrightarrow> msFromTime t1 < msFromTime t2)
           \<and> (pad3 (msFromTime t1) = pad3 (msFromTime t2)
              \<longleftrightarrow> msFromTime t1 = msFromTime t2)
           \<and> length (pad3 (msFromTime t1)) = length (pad3 (msFromTime t2))"
    using tb1 tb2 by (intro pad3_order) simp_all
  have "str_less (iso_string t1) (iso_string t2) \<longleftrightarrow>
     YearFromTime t1 < YearFromTime t2
     \<or> (YearFromTime t1 = YearFromTime t2
         \<and> (MonthFromTime t1 < MonthFromTime t2
             \<or> (MonthFromTime t1 = MonthFromTime t2
                 \<and> (DateFromTime t1 < DateFromTime t2
                     \<or> (DateFromTime t1 = DateFromTime t2
                         \<and> (HourFromTime t1 < HourFromTime t2
                             \<or> (HourFromTime t1 = HourFromTime t2
                                 \<and> (MinFromTime t1 < MinFromTime t2
                                     \<or> (MinFromTime t1 = MinFromTime t2
                                         \<and> (SecFromTime t1 < SecFromTime t2
                                             \<or> (SecFromTime t1 = SecFromTime t2
                                                 \<and> msFromTime t1 < msFromTime t2)))))))))))"
    unfolding iso_string_four_digit [OF assms(1,2)] iso_string_four_digit [OF assms(3,4)]
      seg_order [OF y] seg_order [OF mo] seg_order [OF dd] seg_order [OF hh] seg_order [OF mi]
      seg_order [OF ss] seg_order [OF ms]
    by (simp add: add1_zle_eq)
  also have "\<dots> \<longleftrightarrow> t1 < t2"
    unfolding time_lex [of t1 t2] Day_lex [of t1 t2] Day_eq [of t1 t2] by blast
  finally show ?thesis .
qed

section \<open>Frame lemmas\<close>

lemma sql_eq_JStr [simp]: "sql_eq a (JStr b) \<longleftrightarrow> a = JStr b"
  by (cases a) auto

lemma find_member: "p \<in> set xs \<Longrightarrow> P p \<Longrightarrow> find P xs \<noteq> None"
  by (auto simp: find_None_iff)

lemma updateSubmission_frame [simp]:
  "posts (updateSubmission s sid f) = posts s"
  "postKeywords (updateSubmission s sid f) = postKeywords s"
  "postQuestions (updateSubmission s sid f) = postQuestions s"
  "sources (updateSubmission s sid f) = sources s"
  by (simp_all add: updateSubmission_def)

lemma index_frames [simp]:
  "posts (addQuestions s qs i) = posts s"
  "postKeywords (addQuestions s qs i) = postKeywords s"
  "posts (addKeywords s ks i) = posts s"
  "posts (removeKeywords s ks i) = posts s"
  "postQuestions (addKeywords s ks i) = postQuestions s"
  "postQuestions (removeKeywords s ks i) = postQuestions s"
  "postKeywords (updatePostRow s pt dbp d) = postKeywords s"
  "postKeywords (updateSharePosts s d) = postKeywords s"
  "submissions (addQuestions s qs i) = submissions s"
  "submissions (addKeywords s ks i) = submissions s"
  "submissions (removeKeywords s ks i) = submissions s"
  "submissions (updatePostRow s pt dbp d) = submissions s"
  "submissions (updateSharePosts s d) = submissions s"
  by (simp_all add: addQuestions_def addKeywords_def removeKeywords_def updatePostRow_def
        updateSharePosts_def)

section \<open>The create path\<close>

lemma acceptSubmission_Inl_frame:
  assumes "acceptSubmission s data submissionId = Inl s1"
  shows "posts s1 = posts s \<and> postKeywords s1 = postKeywords s
         \<and> postQuestions s1 = postQuestions s"
  using assms by (auto simp: acceptSubmission_def split: if_splits option.splits)

lemma acceptSubmission_Inr_frame:
  assumes "acceptSubmission s data submissionId = Inr (s1, data1)"
  shows "posts s1 = posts s \<and> postKeywords s1 = postKeywords s
         \<and> postQuestions s1 = postQuestions s
         \<and> data1 ''url'' = data ''url'' \<and> data1 ''canonicalUrl'' = data ''canonicalUrl''
         \<and> data1 ''visible'' = data ''visible'' \<and> data1 ''visibleAt'' = data ''visibleAt''"
  using assms by (auto simp: acceptSubmission_def split: if_splits option.splits)

lemma createPost_Inr:
  assumes "existingPost s data = None"
    and "acceptSubmission s data submissionId = Inr (s1, data1)"
  shows "createPost e s data submissionId mergedKeywords questions =
           (RetUndefined,
            s1\<lparr>posts := posts s1 @ [newPost e data1],
               postKeywords :=
                 postKeywords s1 \<union> (\<lambda>k. (JStr (generateShortId e), k)) ` set mergedKeywords,
               postQuestions :=
                 postQuestions s1 \<union> (\<lambda>q. (JStr (generateShortId e), q)) ` set questions\<rparr>)"
  using assms
  by (simp add: createPost_def Let_def insertArticle_def addKeywords_def addQuestions_def
        newPost_def)

lemma createPost_created:
  assumes "createPost e s data submissionId mergedKeywords questions = (RetUndefined, s')"
  shows "\<exists>s1 data1. existingPost s data = None
           \<and> acceptSubmission s data submissionId = Inr (s1, data1)
           \<and> posts s' = posts s @ [newPost e data1]"
proof (cases "existingPost s data")
  case (Some p)
  with assms show ?thesis by (simp add: createPost_def)
next
  case None
  show ?thesis
  proof (cases "acceptSubmission s data submissionId")
    case (Inl s1)
    with None assms show ?thesis by (simp add: createPost_def)
  next
    case (Inr r)
    obtain s1 data1 where r: "r = (s1, data1)" by (cases r)
    have "posts s1 = posts s"
      using acceptSubmission_Inr_frame Inr r by blast
    with None Inr r assms
      createPost_Inr [of s data submissionId s1 data1 e mergedKeywords questions]
    show ?thesis by auto
  qed
qed

lemma createPost_null_frame:
  assumes "createPost e s data submissionId mergedKeywords questions = (RetNull, s')"
  shows "posts s' = posts s \<and> postKeywords s' = postKeywords s
         \<and> postQuestions s' = postQuestions s"
  using assms
  by (auto simp: createPost_def Let_def dest: acceptSubmission_Inl_frame
           split: option.splits sum.splits prod.splits)

lemma createPost_fresh_example:
  "createPost ex_env ex_store ex_fresh None [''c''] [] =
     (RetUndefined, snd (createPost ex_env ex_store ex_fresh None [''c''] []))"
proof -
  have "fst (createPost ex_env ex_store ex_fresh None [''c''] []) = RetUndefined"
    by (simp add: ex_defs createPost_def existingPost_def urlMatches_def acceptSubmission_def
          ostr_def Let_def)
  then show ?thesis by (metis prod.collapse)
qed

text \<open>
  C2. A create event whose url or canonicalUrl equals the url or canonicalUrl of an
  existing post (any of the four combinations) leaves the store as it is: no post is
  inserted and no index is touched. Hence, after a create event has inserted a post, a
  second create event whose url or canonicalUrl meets the first one's is refused.
\<close>

theorem createPost_dedup:
  "(p \<in> set (posts s) \<and> urlMatches data p \<longrightarrow>
      createPost e s data submissionId mergedKeywords questions = (RetNull, s))
   \<and> (createPost e s data1 submissionId1 mergedKeywords1 questions1 = (RetUndefined, s1)
        \<and> urlMatches data2 data1 \<longrightarrow>
      createPost e2 s1 data2 submissionId2 mergedKeywords2 questions2 = (RetNull, s1))"
proof (intro conjI impI)
  assume "p \<in> set (posts s) \<and> urlMatches data p"
  then have "existingPost s data \<noteq> None"
    unfolding existingPost_def by (intro find_member [of p]) auto
  then show "createPost e s data submissionId mergedKeywords questions = (RetNull, s)"
    by (auto simp: createPost_def)
next
  assume a: "createPost e s data1 submissionId1 mergedKeywords1 questions1 = (RetUndefined, s1)
             \<and> urlMatches data2 data1"
  then obtain s0 d where acc: "acceptSubmission s data1 submissionId1 = Inr (s0, d)"
    and ps: "posts s1 = posts s @ [newPost e d]"
    using createPost_created by blast
  have "d ''url'' = data1 ''url''" "d ''canonicalUrl'' = data1 ''canonicalUrl''"
    using acceptSubmission_Inr_frame [OF acc] by auto
  then have "urlMatches data2 (newPost e d)"
    using a by (simp add: urlMatches_def newPost_def)
  then have "existingPost s1 data2 \<noteq> None"
    unfolding existingPost_def using ps by (intro find_member [of "newPost e d"]) auto
  then show "createPost e2 s1 data2 submissionId2 mergedKeywords2 questions2 = (RetNull, s1)"
    by (auto simp: createPost_def)
qed

theorem createPost_dedup_witness:
  "ex_article \<in> set (posts ex_store) \<and> urlMatches ex_incoming ex_article
   \<and> createPost ex_env ex_store ex_incoming None [''a''] [] = (RetNull, ex_store)
   \<and> fst (createPost ex_env ex_store ex_fresh None [''c''] []) = RetUndefined
   \<and> urlMatches ex_fresh ex_fresh
   \<and> createPost ex_env (snd (createPost ex_env ex_store ex_fresh None [''c''] [])) ex_fresh None
        [''c''] []
      = (RetNull, snd (createPost ex_env ex_store ex_fresh None [''c''] []))"
proof -
  have h1: "ex_article \<in> set (posts ex_store) \<and> urlMatches ex_incoming ex_article"
    by (simp add: ex_defs urlMatches_def)
  have h2: "urlMatches ex_fresh ex_fresh"
    by (simp add: ex_defs urlMatches_def)
  note h3 = createPost_fresh_example
  have h4: "fst (createPost ex_env ex_store ex_fresh None [''c''] []) = RetUndefined"
    using h3 by (metis fst_conv)
  from createPost_dedup [of ex_article ex_store ex_incoming ex_env None "[''a'']" "[]"
      ex_fresh None "[''c'']" "[]" "snd (createPost ex_env ex_store ex_fresh None [''c''] [])"
      ex_fresh ex_env None "[''c'']" "[]"] h1 h2 h3 h4
  show ?thesis by blast
qed

text \<open>
  C9. A post that \<open>createPost\<close> creates is appended to the posts; its creation timestamp
  is the clock reading, its score is that reading in whole minutes (the floor of the
  milliseconds divided by 60000), and its id and its shortId are both the generated
  short id.
\<close>

theorem createPost_score_and_id:
  assumes "createPost e s data submissionId mergedKeywords questions = (RetUndefined, s')"
  shows "\<exists>p. posts s' = posts s @ [p]
           \<and> p ''createdAt'' = JDate (now_created e)
           \<and> p ''score'' = JNum (now_created e div 60000)
           \<and> p ''id'' = JStr (generateShortId e)
           \<and> p ''shortId'' = p ''id''"
proof -
  obtain s1 data1 where "posts s' = posts s @ [newPost e data1]"
    using createPost_created [OF assms] by blast
  then show ?thesis
    by (intro exI [of _ "newPost e data1"]) (simp add: newPost_def)
qed

theorem createPost_score_and_id_witness:
  "createPost ex_env ex_store ex_fresh None [''c''] [] =
     (RetUndefined, snd (createPost ex_env ex_store ex_fresh None [''c''] []))
   \<and> (\<exists>p. posts (snd (createPost ex_env ex_store ex_fresh None [''c''] [])) = posts ex_store @ [p]
           \<and> p ''createdAt'' = JDate 1700000000002
           \<and> p ''score'' = JNum 28333333
           \<and> p ''id'' = JStr ''abc''
           \<and> p ''shortId'' = p ''id'')"
  using createPost_score_and_id [OF createPost_fresh_example] createPost_fresh_example
  by (simp add: ex_env_def)




lemma fixData_visible:
  "fixData e s d = (mk, qs, ct, fd) \<Longrightarrow>
     fd ''visible'' = JBool (title d \<noteq> None \<and> title d \<noteq> Some [])
     \<and> fd ''visibleAt'' =
         (if title d \<noteq> None \<and> title d \<noteq> Some [] then JDate (now_visible e) else Null)"
  by (cases "title d")
     (auto simp: fixData_def Let_def ostr_def split: prod.splits)

text \<open>
  C6. When the handler creates a post for an event without rejection reason and without
  post id, the post is visible with a visibility timestamp (the clock reading) if the
  title of the event is a non-empty string, and not visible with a null visibility
  timestamp if the title is empty or missing.
\<close>

theorem handler_create_visibility:
  assumes "\<not> truthy (ostr (reject_reason d))" and "\<not> truthy (ostr (post_id d))"
    and "posts (handler e s d) \<noteq> posts s"
  shows "\<exists>p. posts (handler e s d) = posts s @ [p]
           \<and> (if title d \<noteq> None \<and> title d \<noteq> Some []
               then p ''visible'' = JBool True \<and> p ''visibleAt'' = JDate (now_visible e)
               else p ''visible'' = JBool False \<and> p ''visibleAt'' = Null)"
proof -
  obtain mk qs ct fd where fx: "fixData e s d = (mk, qs, ct, fd)"
    by (cases "fixData e s d") auto
  have h: "handler e s d = snd (createPost e s fd (submission_id d) mk qs)"
    using assms fx by (auto simp: handler_def split: option.splits if_splits)
  obtain r s' where c: "createPost e s fd (submission_id d) mk qs = (r, s')"
    by (cases "createPost e s fd (submission_id d) mk qs") auto
  have "r = RetUndefined"
    using createPost_null_frame [of e s fd "submission_id d" mk qs s'] c h assms(3)
    by (cases r) auto
  then obtain s1 data1 where acc: "acceptSubmission s fd (submission_id d) = Inr (s1, data1)"
    and ps: "posts s' = posts s @ [newPost e data1]"
    using createPost_created c by blast
  have "data1 ''visible'' = fd ''visible''" "data1 ''visibleAt'' = fd ''visibleAt''"
    using acceptSubmission_Inr_frame [OF acc] by auto
  then have "newPost e data1 ''visible'' = fd ''visible''"
    "newPost e data1 ''visibleAt'' = fd ''visibleAt''"
    by (simp_all add: newPost_def)
  with fixData_visible [OF fx] h c ps show ?thesis
    by (intro exI [of _ "newPost e data1"]) auto
qed

theorem handler_create_visibility_witness:
  "\<not> truthy (ostr (reject_reason ex_event)) \<and> \<not> truthy (ostr (post_id ex_event))
   \<and> title ex_event = Some ''Hello''
   \<and> posts (handler ex_env ex_store ex_event) \<noteq> posts ex_store
   \<and> (\<exists>p. posts (handler ex_env ex_store ex_event) = posts ex_store @ [p]
          \<and> p ''visible'' = JBool True \<and> p ''visibleAt'' = JDate 1700000000001)
   \<and> title ex_event_untitled = None
   \<and> posts (handler ex_env ex_store ex_event_untitled) \<noteq> posts ex_store
   \<and> (\<exists>p. posts (handler ex_env ex_store ex_event_untitled) = posts ex_store @ [p]
          \<and> p ''visible'' = JBool False \<and> p ''visibleAt'' = Null)"
proof -
  have h1: "\<not> truthy (ostr (reject_reason ex_event))"
    and h2: "\<not> truthy (ostr (post_id ex_event))"
    and t: "title ex_event = Some ''Hello''"
    by (simp_all add: ex_event_def ostr_def)
  have g1: "\<not> truthy (ostr (reject_reason ex_event_untitled))"
    and g2: "\<not> truthy (ostr (post_id ex_event_untitled))"
    and u: "title ex_event_untitled = None"
    by (simp_all add: ex_event_untitled_def ex_event_def ostr_def)
  have l: "length (posts ex_store) = 2"
    by (simp add: ex_store_def)
  have "length (posts (handler ex_env ex_store ex_event)) = 3"
    by code_simp
  with l have h3: "posts (handler ex_env ex_store ex_event) \<noteq> posts ex_store"
    by auto
  have "length (posts (handler ex_env ex_store ex_event_untitled)) = 3"
    by code_simp
  with l have g3: "posts (handler ex_env ex_store ex_event_untitled) \<noteq> posts ex_store"
    by auto
  show ?thesis
    using handler_create_visibility [OF h1 h2 h3] handler_create_visibility [OF g1 g2 g3]
      h1 h2 h3 g3 t u
    by (simp add: ex_env_def)
qed

section \<open>The update path\<close>

lemma iso_string_2020: "iso_string 1600000000000 = ''2020-09-13T12:26:40.000Z''"
  by code_simp

lemma iso_string_2023: "iso_string 1700000000000 = ''2023-11-14T22:13:20.000Z''"
  by code_simp

lemma iso_string_10000: "iso_string 253402300800000 = ''+010000-01-01T00:00:00.000Z''"
  by code_simp

lemma squadSource_other:
  "k \<noteq> ''sourceId'' \<Longrightarrow> squadSource data k = data k"
  by (simp add: squadSource_def)

lemma stale_squadSource [simp]: "stale dbp (squadSource data) = stale dbp data"
  by (simp add: stale_def squadSource_other split: sum.splits)

lemma findOneBy_id_Some:
  "findOneBy_id s pt pid = Some dbp \<Longrightarrow>
     dbp \<in> set (posts s) \<and> dbp ''type'' = JStr (PostType_value pt) \<and> dbp ''id'' = JStr pid"
  by (auto simp: findOneBy_id_def find_Some_iff)

lemma contentType_cases:
  "contentTypeFromPostType c = Some pt \<Longrightarrow> c = PostType_value pt"
  by (auto simp: contentTypeFromPostType_def split: if_splits)

lemma updateKeywords_posts:
  "updateKeywords s dbp d mk = Inr s' \<Longrightarrow> posts s' = posts s \<and> submissions s' = submissions s"
  by (auto simp: updateKeywords_def split: if_splits jsval.splits)

lemma updateKeywords_text:
  assumes "text_column (dbp ''tagsStr'')"
  shows "\<exists>s'. updateKeywords s dbp d mk = Inr s'
           \<and> postKeywords s' =
               (if strict_eq (dbp ''tagsStr'') (d ''tagsStr'') then postKeywords s
                else (postKeywords s - (\<lambda>k. (d ''id'', k)) ` set (storedKeywords (dbp ''tagsStr'')))
                       \<union> (\<lambda>k. (d ''id'', k)) ` set mk)"
  using assms
  by (cases "dbp ''tagsStr''")
     (auto simp: updateKeywords_def text_column_def storedKeywords_def addKeywords_def
        removeKeywords_def)

text \<open>The stale branch: no stored post of the content type with the id, or a stored
  post whose timestamp string is not below the incoming one. The update returns null
  and the store is the same.\<close>

lemma updatePost_stale_noop:
  assumes "contentTypeFromPostType (case ct of None \<Rightarrow> PostType_value Article | Some c \<Rightarrow> c)
             = Some pt"
    and "findOneBy_id s pt pid = None \<or>
         (\<exists>dbp. findOneBy_id s pt pid = Some dbp \<and> stale dbp data = Inr True)"
  shows "updatePost s data pid mk qs ct = Inr (RetNull, s)"
  using assms by (auto simp: updatePost_def Let_def)

text \<open>For timestamps of the years 0000 to 9999 the staleness test is the comparison of
  the timestamps: the update is stale exactly when the stored timestamp is at or after
  the incoming one.\<close>

lemma stale_chronological:
  assumes "dbp ''metadataChangedAt'' = JDate a" and "data ''metadataChangedAt'' = JDate b"
    and "fourDigitYear a" and "fourDigitYear b"
  shows "stale dbp data = Inr (b \<le> a)"
proof -
  have "str_less (iso_string a) (iso_string b) \<longleftrightarrow> a < b"
    using assms(3,4) four_digit_year [of a] four_digit_year [of b]
    by (intro iso_string_less_iff) (simp_all add: fourDigitYear_def)
  then show ?thesis
    using assms(1,2) by (auto simp: stale_def str_ge_def)
qed

lemma updatePost_discards_stale:
  assumes "contentTypeFromPostType (case ct of None \<Rightarrow> PostType_value Article | Some c \<Rightarrow> c)
             = Some pt"
    and "findOneBy_id s pt pid = None \<or>
         (\<exists>dbp a b. findOneBy_id s pt pid = Some dbp
            \<and> dbp ''metadataChangedAt'' = JDate a \<and> data ''metadataChangedAt'' = JDate b
            \<and> fourDigitYear a \<and> fourDigitYear b \<and> b \<le> a)"
  shows "updatePost s data pid mk qs ct = Inr (RetNull, s)"
proof (rule updatePost_stale_noop [OF assms(1)])
  show "findOneBy_id s pt pid = None \<or>
        (\<exists>dbp. findOneBy_id s pt pid = Some dbp \<and> stale dbp data = Inr True)"
    using assms(2) stale_chronological by fastforce
qed

text \<open>For instance, an update with the timestamp 2020-09-13 12:26:39.999 for the
  article stored with 2020-09-13 12:26:40.000 is discarded.\<close>

lemma updatePost_discards_stale_example:
  "updatePost ex_store (ex_update(''metadataChangedAt'' := JDate 1599999999999)) ''p1''
     [''b'', ''c''] [] None = Inr (RetNull, ex_store)"
proof -
  have "findOneBy_id ex_store Article ''p1'' = Some ex_article"
    by (simp add: findOneBy_id_def ex_defs)
  moreover have "ex_article ''metadataChangedAt'' = JDate 1600000000000"
    by (simp add: ex_defs)
  moreover have "fourDigitYear 1600000000000" "fourDigitYear 1599999999999"
    by (simp_all add: fourDigitYear_def)
  ultimately show ?thesis
    by (intro updatePost_discards_stale [of None Article])
       (auto simp: contentTypeFromPostType_def)
qed

lemma updatePost_not_stale:
  assumes "contentTypeFromPostType (case ct of None \<Rightarrow> PostType_value Article | Some c \<Rightarrow> c)
             = Some pt"
    and "findOneBy_id s pt pid = Some dbp"
    and "stale dbp data = Inr False"
  shows "updatePost s data pid mk qs ct =
           persistUpdate s pt (case ct of None \<Rightarrow> PostType_value Article | Some c \<Rightarrow> c) dbp
             (squadSource data) mk qs"
  using assms by (simp add: updatePost_def Let_def)

lemma persistUpdate_Inr:
  assumes "mergeData ctype dbp data = Inr data1"
    and "updateKeywords
           (if truthy (updateBecameVisible ctype dbp (js_or (data ''title'') (dbp ''title'')))
            then updateSharePosts (updatePostRow s pt dbp data1) data1
            else updatePostRow s pt dbp data1) dbp data1 mk = Inr s3"
  shows "persistUpdate s pt ctype dbp data mk qs =
           Inr (RetUndefined, addQuestions s3 qs (data1 ''id''))"
  using assms by (simp add: persistUpdate_def Let_def)

lemma mergeData_freeform:
  "mergeData ''freeform'' dbp data = Inr d1 \<Longrightarrow> k \<notin> set freeformKept \<Longrightarrow> d1 k = Undefined"
  by (auto simp: mergeData_def Let_def js_in_def allowedFieldsMapping_def freeformKept_def)

lemma mergeData_freeform_kept:
  "\<exists>d1. mergeData ''freeform'' dbp data = Inr d1
     \<and> d1 ''id'' = dbp ''id'' \<and> d1 ''tagsStr'' = data ''tagsStr''"
  by (auto simp: mergeData_def Let_def js_in_def allowedFieldsMapping_def)

lemma mergeData_other:
  "ctype = ''article'' \<or> ctype = ''share'' \<or> ctype = ''welcome'' \<Longrightarrow>
   \<exists>d1. mergeData ctype dbp data = Inr d1
     \<and> d1 ''id'' = dbp ''id'' \<and> d1 ''tagsStr'' = data ''tagsStr''"
  by (auto simp: mergeData_def Let_def js_in_def allowedFieldsMapping_def
        object_prototype_names_def)

lemma mergeData_any:
  assumes "contentTypeFromPostType ctype = Some pt"
  shows "\<exists>d1. mergeData ctype dbp data = Inr d1
           \<and> d1 ''id'' = dbp ''id'' \<and> d1 ''tagsStr'' = data ''tagsStr''"
proof (cases pt)
  case Freeform
  with assms have "ctype = ''freeform''" using contentType_cases by fastforce
  then show ?thesis using mergeData_freeform_kept by simp
next
  case Article
  with assms have "ctype = ''article''" using contentType_cases by fastforce
  then show ?thesis using mergeData_other [of ctype dbp data] by auto
next
  case Share
  with assms have "ctype = ''share''" using contentType_cases by fastforce
  then show ?thesis using mergeData_other [of ctype dbp data] by auto
next
  case Welcome
  with assms have "ctype = ''welcome''" using contentType_cases by fastforce
  then show ?thesis using mergeData_other [of ctype dbp data] by auto
qed

lemma write_row_other:
  "k \<noteq> ''flags'' \<Longrightarrow> partial k = Undefined \<Longrightarrow> write_row partial fl p k = p k"
  by (simp add: write_row_def)

lemma write_row_defined:
  "k \<noteq> ''flags'' \<Longrightarrow> partial k \<noteq> Undefined \<Longrightarrow> write_row partial fl p k = partial k"
  by (simp add: write_row_def)

lemma updatePostRow_column:
  assumes "k \<noteq> ''flags''" and "d1 k = Undefined"
  shows "map (\<lambda>p. p k) (posts (updatePostRow s pt dbp d1)) = map (\<lambda>p. p k) (posts s)"
  using assms by (simp add: updatePostRow_def write_row_other)

lemma updateSharePosts_column:
  assumes "k \<noteq> ''flags''" and "k \<noteq> ''visible''" and "k \<noteq> ''visibleAt''"
    and "d1 ''private'' = Undefined \<or> k \<noteq> ''private''"
  shows "map (\<lambda>p. p k) (posts (updateSharePosts s d1)) = map (\<lambda>p. p k) (posts s)"
proof -
  have "(empty_obj(''visible'' := JBool True, ''visibleAt'' := d1 ''visibleAt'',
                   ''private'' := d1 ''private'')) k = Undefined"
    using assms by (auto simp: empty_obj_def)
  then show ?thesis
    using assms(1) by (simp add: updateSharePosts_def write_row_other)
qed

lemma persistUpdate_freeform_column:
  assumes "persistUpdate s pt ''freeform'' dbp data mk qs = Inr (r, s')"
    and "k \<notin> set freeformKept"
  shows "map (\<lambda>p. p k) (posts s') = map (\<lambda>p. p k) (posts s)"
proof -
  obtain d1 where m: "mergeData ''freeform'' dbp data = Inr d1"
    using mergeData_freeform_kept by blast
  have u: "d1 k = Undefined" "d1 ''private'' = Undefined"
    using mergeData_freeform [OF m] assms(2) by (auto simp: freeformKept_def)
  have k: "k \<noteq> ''flags''" "k \<noteq> ''visible''" "k \<noteq> ''visibleAt''"
    using assms(2) by (auto simp: freeformKept_def)
  define s2 where "s2 =
    (if truthy (updateBecameVisible ''freeform'' dbp (js_or (data ''title'') (dbp ''title'')))
     then updateSharePosts (updatePostRow s pt dbp d1) d1 else updatePostRow s pt dbp d1)"
  have c2: "map (\<lambda>p. p k) (posts s2) = map (\<lambda>p. p k) (posts s)"
    unfolding s2_def
    using updatePostRow_column [of k d1 s pt dbp] updateSharePosts_column [of k d1] k u
    by simp
  obtain s3 where k3: "updateKeywords s2 dbp d1 mk = Inr s3"
    and s': "s' = addQuestions s3 qs (d1 ''id'')"
    using assms(1) m unfolding persistUpdate_def s2_def
    by (auto simp: Let_def split: sum.splits)
  have "posts s' = posts s2"
    using updateKeywords_posts [OF k3] s' by simp
  with c2 show ?thesis by simp
qed

lemma updatePost_freeform_column:
  assumes "updatePost s data pid mk qs (Some ''freeform'') = Inr (r, s')"
    and "k \<notin> set freeformKept"
  shows "map (\<lambda>p. p k) (posts s') = map (\<lambda>p. p k) (posts s)"
proof (cases "findOneBy_id s Freeform pid")
  case None
  with assms(1) show ?thesis
    by (simp add: updatePost_def contentTypeFromPostType_def)
next
  case (Some databasePost)
  show ?thesis
  proof (cases "stale databasePost data")
    case (Inl err)
    with assms(1) Some show ?thesis
      by (simp add: updatePost_def contentTypeFromPostType_def)
  next
    case (Inr b)
    show ?thesis
    proof (cases b)
      case True
      with assms(1) Some Inr show ?thesis
        by (simp add: updatePost_def contentTypeFromPostType_def)
    next
      case False
      with assms(1) Some Inr
      have "persistUpdate s Freeform ''freeform'' databasePost (squadSource data) mk qs
              = Inr (r, s')"
        by (simp add: updatePost_def contentTypeFromPostType_def)
      then show ?thesis
        using persistUpdate_freeform_column assms(2) by blast
    qed
  qed
qed

text \<open>
  C3. For an update event of content type Freeform, the data that is persisted defines
  no field outside the allowlist (contentCuration, description, metadataChangedAt,
  readTime, summary, tagsStr) and the always-kept fields (id, visible, visibleAt, flags,
  yggdrasilId), and every other column of every stored post is the same after the
  update as before.
\<close>

theorem freeform_field_isolation:
  assumes "k \<notin> set freeformKept"
  shows "(\<exists>d1. mergeData ''freeform'' dbp data = Inr d1 \<and> d1 k = Undefined)
         \<and> map (\<lambda>p. p k)
             (posts (committed s (updatePost s data pid mk qs (Some ''freeform''))))
           = map (\<lambda>p. p k) (posts s)"
proof
  show "\<exists>d1. mergeData ''freeform'' dbp data = Inr d1 \<and> d1 k = Undefined"
    using mergeData_freeform_kept [of dbp data] mergeData_freeform assms by blast
next
  show "map (\<lambda>p. p k) (posts (committed s (updatePost s data pid mk qs (Some ''freeform''))))
          = map (\<lambda>p. p k) (posts s)"
  proof (cases "updatePost s data pid mk qs (Some ''freeform'')")
    case (Inl err)
    then show ?thesis by (simp add: committed_def)
  next
    case (Inr res)
    obtain r s' where "res = (r, s')" by (cases res)
    with Inr updatePost_freeform_column [of s data pid mk qs r s' k] assms
    show ?thesis by (simp add: committed_def)
  qed
qed

theorem freeform_field_isolation_witness:
  "''title'' \<notin> set freeformKept
   \<and> (\<exists>d1. mergeData ''freeform'' ex_freeform ex_update = Inr d1 \<and> d1 ''title'' = Undefined)
   \<and> map (\<lambda>p. p ''title'')
       (posts (committed ex_store (updatePost ex_store ex_update ''f1'' [] [] (Some ''freeform''))))
     = [JStr ''Hello'', JStr ''My post'']
   \<and> map (\<lambda>p. p ''summary'')
       (posts (committed ex_store (updatePost ex_store ex_update ''f1'' [] [] (Some ''freeform''))))
     = [Undefined, JStr ''A summary'']"
proof -
  have h: "''title'' \<notin> set freeformKept"
    by (simp add: freeformKept_def)
  have t: "map (\<lambda>p. p ''title'') (posts ex_store) = [JStr ''Hello'', JStr ''My post'']"
    by (simp add: ex_defs)
  have e: "map (\<lambda>p. p ''summary'')
             (posts (committed ex_store
                (updatePost ex_store ex_update ''f1'' [] [] (Some ''freeform''))))
           = [Undefined, JStr ''A summary'']"
    by code_simp
  show ?thesis
    using freeform_field_isolation [OF h, of ex_freeform ex_update ex_store "''f1''" "[]" "[]"]
      h t e
    by simp
qed

text \<open>Keyword re-indexing, for an update that passes the staleness test of the code, on
  a post whose stored tag string is text: when the incoming tag string differs from the
  stored one, the keyword index loses the pairs of the post with the keywords of the
  stored tag string and gains its pairs with the merged keywords; when the tag string
  is the same, the keyword index is not changed.\<close>

lemma update_reindexes_keywords:
  assumes "contentTypeFromPostType (case ct of None \<Rightarrow> PostType_value Article | Some c \<Rightarrow> c)
             = Some pt"
    and "findOneBy_id s pt pid = Some dbp"
    and "stale dbp data = Inr False"
    and "text_column (dbp ''tagsStr'')"
  shows "\<exists>s'. updatePost s data pid mk qs ct = Inr (RetUndefined, s')
           \<and> postKeywords s' =
               (if strict_eq (dbp ''tagsStr'') (data ''tagsStr'') then postKeywords s
                else (postKeywords s
                        - (\<lambda>k. (JStr pid, k)) ` set (storedKeywords (dbp ''tagsStr'')))
                     \<union> (\<lambda>k. (JStr pid, k)) ` set mk)"
proof -
  define ctype where "ctype = (case ct of None \<Rightarrow> PostType_value Article | Some c \<Rightarrow> c)"
  obtain d1 where m: "mergeData ctype dbp (squadSource data) = Inr d1"
    and d1: "d1 ''id'' = dbp ''id''" "d1 ''tagsStr'' = squadSource data ''tagsStr''"
    using mergeData_any [of ctype pt dbp "squadSource data"] assms(1) ctype_def by auto
  have id: "d1 ''id'' = JStr pid"
    using d1(1) findOneBy_id_Some [OF assms(2)] by simp
  have tags: "d1 ''tagsStr'' = data ''tagsStr''"
    using d1(2) by (simp add: squadSource_other)
  define s2 where "s2 =
    (if truthy (updateBecameVisible ctype dbp
                  (js_or (squadSource data ''title'') (dbp ''title'')))
     then updateSharePosts (updatePostRow s pt dbp d1) d1 else updatePostRow s pt dbp d1)"
  have k2: "postKeywords s2 = postKeywords s"
    by (simp add: s2_def)
  obtain s3 where k3: "updateKeywords s2 dbp d1 mk = Inr s3"
    and p3: "postKeywords s3 =
               (if strict_eq (dbp ''tagsStr'') (d1 ''tagsStr'') then postKeywords s2
                else (postKeywords s2
                       - (\<lambda>k. (d1 ''id'', k)) ` set (storedKeywords (dbp ''tagsStr'')))
                     \<union> (\<lambda>k. (d1 ''id'', k)) ` set mk)"
    using updateKeywords_text [where dbp = dbp and s = s2 and d = d1 and mk = mk] assms(4)
    by blast
  have "updatePost s data pid mk qs ct = Inr (RetUndefined, addQuestions s3 qs (d1 ''id''))"
    using updatePost_not_stale [OF assms(1-3)] persistUpdate_Inr [OF m] k3
    unfolding s2_def ctype_def by simp
  moreover have "postKeywords (addQuestions s3 qs (d1 ''id'')) =
               (if strict_eq (dbp ''tagsStr'') (data ''tagsStr'') then postKeywords s
                else (postKeywords s
                        - (\<lambda>k. (JStr pid, k)) ` set (storedKeywords (dbp ''tagsStr'')))
                     \<union> (\<lambda>k. (JStr pid, k)) ` set mk)"
    using p3 k2 id tags by simp
  ultimately show ?thesis by blast
qed

lemma stale_ex_article: "stale ex_article ex_update = Inr False"
  by code_simp

lemma find_ex_article: "findOneBy_id ex_store Article ''p1'' = Some ex_article"
  by (simp add: findOneBy_id_def ex_defs)

lemma contentType_default:
  "contentTypeFromPostType (case None of None \<Rightarrow> PostType_value Article | Some c \<Rightarrow> c)
     = Some Article"
  by (simp add: contentTypeFromPostType_def)

lemma update_reindexes_keywords_example:
  "contentTypeFromPostType (PostType_value Article) = Some Article
   \<and> findOneBy_id ex_store Article ''p1'' = Some ex_article
   \<and> stale ex_article ex_update = Inr False
   \<and> text_column (ex_article ''tagsStr'')
   \<and> ex_article ''tagsStr'' = JStr ''a,b'' \<and> ex_update ''tagsStr'' = JStr ''b,c''
   \<and> postKeywords ex_store = {(JStr ''p1'', ''a''), (JStr ''p1'', ''b'')}
   \<and> (\<exists>s'. updatePost ex_store ex_update ''p1'' [''b'', ''c''] [] None = Inr (RetUndefined, s')
          \<and> postKeywords s' = {(JStr ''p1'', ''b''), (JStr ''p1'', ''c'')})"
proof -
  have h1: "contentTypeFromPostType (PostType_value Article) = Some Article"
    by (simp add: contentTypeFromPostType_def)
  have h4: "text_column (ex_article ''tagsStr'')"
    and t: "ex_article ''tagsStr'' = JStr ''a,b''" "ex_update ''tagsStr'' = JStr ''b,c''"
    by (simp_all add: ex_defs text_column_def)
  have k: "postKeywords ex_store = {(JStr ''p1'', ''a''), (JStr ''p1'', ''b'')}"
    by (simp add: ex_store_def)
  have sk: "storedKeywords (JStr ''a,b'') = [''a'', ''b'']"
    by (simp add: storedKeywords_def split_comma_def)
  have "{(JStr ''p1'', ''a''), (JStr ''p1'', ''b'')}
          - (\<lambda>k. (JStr ''p1'', k)) ` set [''a'', ''b'']
          \<union> (\<lambda>k. (JStr ''p1'', k)) ` set [''b'', ''c'']
        = {(JStr ''p1'', ''b''), (JStr ''p1'', ''c'')}"
    by auto
  then show ?thesis
    using update_reindexes_keywords [OF contentType_default find_ex_article stale_ex_article h4,
        of "[''b'', ''c'']" "[]"]
      h1 h4 t k sk find_ex_article stale_ex_article
    by simp
qed

text \<open>The same for timestamps of the years 0000 to 9999, where the test of the code is
  the comparison of the timestamps: the stored timestamp is before the incoming one.\<close>

lemma update_reindexes_keywords_chronological:
  assumes "contentTypeFromPostType (case ct of None \<Rightarrow> PostType_value Article | Some c \<Rightarrow> c)
             = Some pt"
    and "findOneBy_id s pt pid = Some dbp"
    and "dbp ''metadataChangedAt'' = JDate a" and "data ''metadataChangedAt'' = JDate b"
    and "fourDigitYear a" and "fourDigitYear b" and "a < b"
    and "text_column (dbp ''tagsStr'')"
  shows "\<exists>s'. updatePost s data pid mk qs ct = Inr (RetUndefined, s')
           \<and> postKeywords s' =
               (if strict_eq (dbp ''tagsStr'') (data ''tagsStr'') then postKeywords s
                else (postKeywords s
                        - (\<lambda>k. (JStr pid, k)) ` set (storedKeywords (dbp ''tagsStr'')))
                     \<union> (\<lambda>k. (JStr pid, k)) ` set mk)"
proof -
  have st: "stale dbp data = Inr False"
    using stale_chronological [where dbp = dbp and data = data and a = a and b = b] assms(3-7)
    by simp
  show ?thesis
    using assms(1,2) st assms(8) by (rule update_reindexes_keywords [where dbp = dbp])
qed

lemma updatePostRow_hidden:
  assumes "d1 ''visible'' = JBool False" and "d1 ''visibleAt'' = Null"
    and "dbp ''id'' = JStr pid"
  shows "list_all2
           (\<lambda>p p'. if p ''type'' = JStr (PostType_value pt) \<and> sql_eq (p ''id'') (JStr pid)
                    then p' ''visible'' = JBool False \<and> p' ''visibleAt'' = Null
                    else p' = p)
           (posts s) (posts (updatePostRow s pt dbp d1))"
  using assms
  by (auto simp: updatePostRow_def list_all2_map2 write_row_defined intro!: list_all2_all_nthI)

text \<open>An update that passes the staleness test of the code, of a content type other than
  Freeform, on a stored post that is visible (and whose tag string is text): the update
  is applied, the rows of the post get visible = false and visibleAt = null, and every
  other row of the posts, share posts included, is what it was (the cascade to the
  share posts does not run).\<close>

lemma update_hides_visible_post:
  assumes "contentTypeFromPostType (case ct of None \<Rightarrow> PostType_value Article | Some c \<Rightarrow> c)
             = Some pt"
    and "pt \<noteq> Freeform"
    and "findOneBy_id s pt pid = Some dbp"
    and "stale dbp data = Inr False"
    and "truthy (dbp ''visible'')"
    and "text_column (dbp ''tagsStr'')"
  shows "\<exists>s'. updatePost s data pid mk qs ct = Inr (RetUndefined, s')
           \<and> list_all2
               (\<lambda>p p'. if p ''type'' = JStr (PostType_value pt) \<and> sql_eq (p ''id'') (JStr pid)
                        then p' ''visible'' = JBool False \<and> p' ''visibleAt'' = Null
                        else p' = p)
               (posts s) (posts s')"
proof -
  define ctype where "ctype = (case ct of None \<Rightarrow> PostType_value Article | Some c \<Rightarrow> c)"
  have c: "ctype = PostType_value pt"
    using assms(1) contentType_cases ctype_def by simp
  then have nf: "ctype \<noteq> PostType_value Freeform"
    using assms(2) by (cases pt) auto
  have ubv: "updateBecameVisible ctype dbp t = JBool False" for t
    using nf assms(5) by (simp add: updateBecameVisible_def)
  have "js_in ctype [''freeform''] = False"
    using c assms(2) by (cases pt) (auto simp: js_in_def object_prototype_names_def)
  then obtain d1 where m: "mergeData ctype dbp (squadSource data) = Inr d1"
    and v: "d1 ''visible'' = JBool False" "d1 ''visibleAt'' = Null"
    using ubv by (simp add: mergeData_def Let_def)
  obtain s3 where k3: "updateKeywords (updatePostRow s pt dbp d1) dbp d1 mk = Inr s3"
    using updateKeywords_text [where dbp = dbp and s = "updatePostRow s pt dbp d1" and d = d1
        and mk = mk] assms(6)
    by blast
  have "updatePost s data pid mk qs ct = Inr (RetUndefined, addQuestions s3 qs (d1 ''id''))"
    using updatePost_not_stale [OF assms(1,3,4)] persistUpdate_Inr [OF m, of s pt mk s3 qs] k3 ubv
    unfolding ctype_def by simp
  moreover have "posts (addQuestions s3 qs (d1 ''id'')) = posts (updatePostRow s pt dbp d1)"
    using updateKeywords_posts [OF k3] by simp
  ultimately show ?thesis
    using updatePostRow_hidden [OF v, of dbp pid pt s] findOneBy_id_Some [OF assms(3)]
    by auto
qed

lemma update_hides_visible_post_example:
  "contentTypeFromPostType (PostType_value Article) = Some Article
   \<and> Article \<noteq> Freeform
   \<and> findOneBy_id ex_store Article ''p1'' = Some ex_article
   \<and> stale ex_article ex_update = Inr False
   \<and> truthy (ex_article ''visible'')
   \<and> text_column (ex_article ''tagsStr'')
   \<and> (\<exists>s'. updatePost ex_store ex_update ''p1'' [''b'', ''c''] [] None = Inr (RetUndefined, s')
          \<and> list_all2
               (\<lambda>p p'. if p ''type'' = JStr (PostType_value Article)
                          \<and> sql_eq (p ''id'') (JStr ''p1'')
                        then p' ''visible'' = JBool False \<and> p' ''visibleAt'' = Null
                        else p' = p)
               (posts ex_store) (posts s'))
   \<and> map (\<lambda>p. (p ''visible'', p ''visibleAt''))
       (posts (committed ex_store (updatePost ex_store ex_update ''p1'' [''b'', ''c''] [] None)))
     = [(JBool False, Null), (JBool True, JDate 1600000000000)]"
proof -
  have h1: "contentTypeFromPostType (PostType_value Article) = Some Article"
    by (simp add: contentTypeFromPostType_def)
  have h2: "Article \<noteq> Freeform" by simp
  have h5: "truthy (ex_article ''visible'')" and h6: "text_column (ex_article ''tagsStr'')"
    by (simp_all add: ex_defs text_column_def)
  have e: "map (\<lambda>p. (p ''visible'', p ''visibleAt''))
       (posts (committed ex_store (updatePost ex_store ex_update ''p1'' [''b'', ''c''] [] None)))
     = [(JBool False, Null), (JBool True, JDate 1600000000000)]"
    by code_simp
  show ?thesis
    using update_hides_visible_post [OF contentType_default h2 find_ex_article stale_ex_article
        h5 h6, of "[''b'', ''c'']" "[]"]
      h1 h5 h6 e find_ex_article stale_ex_article
    by simp
qed

text \<open>The same for timestamps of the years 0000 to 9999 with the stored timestamp before
  the incoming one.\<close>

lemma update_hides_visible_post_chronological:
  assumes "contentTypeFromPostType (case ct of None \<Rightarrow> PostType_value Article | Some c \<Rightarrow> c)
             = Some pt"
    and "pt \<noteq> Freeform"
    and "findOneBy_id s pt pid = Some dbp"
    and "dbp ''metadataChangedAt'' = JDate a" and "data ''metadataChangedAt'' = JDate b"
    and "fourDigitYear a" and "fourDigitYear b" and "a < b"
    and "truthy (dbp ''visible'')"
    and "text_column (dbp ''tagsStr'')"
  shows "\<exists>s'. updatePost s data pid mk qs ct = Inr (RetUndefined, s')
           \<and> list_all2
               (\<lambda>p p'. if p ''type'' = JStr (PostType_value pt) \<and> sql_eq (p ''id'') (JStr pid)
                        then p' ''visible'' = JBool False \<and> p' ''visibleAt'' = Null
                        else p' = p)
               (posts s) (posts s')"
proof -
  have st: "stale dbp data = Inr False"
    using stale_chronological [where dbp = dbp and data = data and a = a and b = b] assms(4-8)
    by simp
  show ?thesis
    using assms(1-3) st assms(9,10) by (rule update_hides_visible_post [where dbp = dbp])
qed

section \<open>Rejections and terminal submissions\<close>

lemma handleRejection_frame:
  "posts (handleRejection e s d) = posts s
   \<and> postKeywords (handleRejection e s d) = postKeywords s
   \<and> postQuestions (handleRejection e s d) = postQuestions s"
  by (simp add: handleRejection_def split: option.splits)

lemma handler_rejection:
  "truthy (ostr (reject_reason d)) \<Longrightarrow> handler e s d = handleRejection e s d"
  by (simp add: handler_def)

text \<open>A rejection without submission id, or for a submission that does not exist,
  changes nothing.\<close>

lemma handleRejection_no_submission:
  assumes "submission_id d = None \<or> submission_id d = Some []
           \<or> findSubmission s (the (submission_id d)) = None"
  shows "handleRejection e s d = s"
  using assms by (auto simp: handleRejection_def ostr_def)

text \<open>A rejection for a submission that is not in the Started state changes nothing.\<close>

lemma handleRejection_terminal:
  assumes "findSubmission s (the (submission_id d)) = Some submission"
    and "status submission \<noteq> Started"
  shows "handleRejection e s d = s"
  using assms by (simp add: handleRejection_def)

text \<open>A rejection for a Started submission saves it as Rejected; the reason is the
  incoming one when the \<open>in\<close> test succeeds and the generic error otherwise.\<close>

lemma handleRejection_started:
  assumes "submission_id d = Some sid" and "sid \<noteq> []"
    and "findSubmission s sid = Some submission" and "status submission = Started"
    and "reject_reason d = Some r"
  shows "handleRejection e s d =
           updateSubmission s (sub_id submission)
             (\<lambda>x. submission\<lparr>status := Rejected,
                    reason := (if js_in r (SubmissionFailErrorMessage e) then Some r
                               else Some GenericError)\<rparr>)"
  using assms by (simp add: handleRejection_def ostr_def)

text \<open>
  C8, at the input where the code leaves the claim. The table of the example has the
  keys GENERIC_ERROR, SCOUT_IS_AUTHOR and PAYWALL; the reason \<open>constructor\<close> is none of
  them, but the \<open>in\<close> operator finds it on the prototype of the table, and the Started
  submission is saved with the reason \<open>constructor\<close> instead of the generic error.
\<close>

theorem handleRejection_inherited_reason:
  "''constructor'' \<notin> set (SubmissionFailErrorMessage ex_env)
   \<and> reject_reason ex_event_rejection = Some ''constructor''
   \<and> submissions ex_store =
       [\<lparr>sub_id = ''s1'', userId = ''u1'', status = Started, reason = None\<rparr>]
   \<and> submissions (handler ex_env ex_store ex_event_rejection) =
       [\<lparr>sub_id = ''s1'', userId = ''u1'', status = Rejected, reason = Some ''constructor''\<rparr>]"
  by code_simp

text \<open>
  C5, at inputs where the code leaves the claim. A create event that refers to a
  submission already Rejected (reason PAYWALL) sets it to Accepted; a create event of
  the author who owns a submission already Accepted sets it to Rejected with the
  scout-is-author reason. \<open>handleRejection\<close> tests for the Started state
  (\<open>handleRejection_terminal\<close>), \<open>createPost\<close> does not.
\<close>

theorem createPost_rewrites_terminal_submission:
  "submissions ex_store_rejected =
     [\<lparr>sub_id = ''s1'', userId = ''u1'', status = Rejected, reason = Some ''PAYWALL''\<rparr>]
   \<and> submissions (handler ex_env ex_store_rejected ex_event_submitted) =
     [\<lparr>sub_id = ''s1'', userId = ''u1'', status = Accepted, reason = Some ''PAYWALL''\<rparr>]
   \<and> submissions ex_store_accepted =
     [\<lparr>sub_id = ''s1'', userId = ''u1'', status = Accepted, reason = None\<rparr>]
   \<and> submissions (handler ex_env ex_store_accepted ex_event_alice) =
     [\<lparr>sub_id = ''s1'', userId = ''u1'', status = Rejected,
       reason = Some ''SCOUT_IS_AUTHOR''\<rparr>]"
  by code_simp

text \<open>
  C1, at an input where the code leaves the claim. The stored article carries the
  metadata timestamp 10000-01-01, the update the timestamp 2023-11-14: the stored one is
  after the incoming one. Their ISO strings are \<open>+010000-01-01T00:00:00.000Z\<close> and
  \<open>2023-11-14T22:13:20.000Z\<close>; as strings the first is below the second, the update is
  not taken as stale and the stored title is overwritten.
\<close>

theorem updatePost_overwrites_later_timestamp:
  "findOneBy_id ex_store_far Article ''p1'' = Some ex_article_far
   \<and> ex_article_far ''metadataChangedAt'' = JDate 253402300800000
   \<and> ex_update ''metadataChangedAt'' = JDate 1700000000000
   \<and> (1700000000000 :: int) < 253402300800000
   \<and> toISOString (JDate 253402300800000) = Inr ''+010000-01-01T00:00:00.000Z''
   \<and> toISOString (JDate 1700000000000) = Inr ''2023-11-14T22:13:20.000Z''
   \<and> stale ex_article_far ex_update = Inr False
   \<and> map (\<lambda>p. p ''title'') (posts ex_store_far) = [JStr ''Hello'']
   \<and> map (\<lambda>p. p ''title'')
       (posts (committed ex_store_far (updatePost ex_store_far ex_update ''p1'' [] [] None)))
     = [JStr ''Hello, updated'']"
proof -
  have "findOneBy_id ex_store_far Article ''p1'' = Some ex_article_far"
    by (simp add: findOneBy_id_def ex_store_far_def ex_article_far_def ex_article_def
          empty_obj_def)
  moreover have "ex_article_far ''metadataChangedAt'' = JDate 253402300800000"
    "ex_update ''metadataChangedAt'' = JDate 1700000000000"
    by (simp_all add: ex_defs)
  moreover have "stale ex_article_far ex_update = Inr False"
    by code_simp
  moreover have "map (\<lambda>p. p ''title'') (posts ex_store_far) = [JStr ''Hello'']"
    by (simp add: ex_defs)
  moreover have "map (\<lambda>p. p ''title'')
       (posts (committed ex_store_far (updatePost ex_store_far ex_update ''p1'' [] [] None)))
     = [JStr ''Hello, updated'']"
    by code_simp
  ultimately show ?thesis
    by (simp add: iso_string_10000 iso_string_2023)
qed

lemma stale_ex_far: "stale ex_article ex_update_far = Inr True"
  by code_simp

lemma updatePost_ex_far:
  "updatePost ex_store ex_update_far ''p1'' mk qs None = Inr (RetNull, ex_store)"
proof (rule updatePost_stale_noop [OF contentType_default])
  show "findOneBy_id ex_store Article ''p1'' = None \<or>
        (\<exists>dbp. findOneBy_id ex_store Article ''p1'' = Some dbp
                \<and> stale dbp ex_update_far = Inr True)"
    using find_ex_article stale_ex_far by simp
qed

text \<open>
  C7, at an input where the code leaves the claim (through the staleness test, the
  defect shown for C1). The stored article carries the timestamp 2020-09-13 and the tag
  string \<open>a,b\<close>; the update carries the timestamp 10000-01-01, which is after the stored
  one, and the tag string \<open>b,c\<close>. As strings \<open>2020-09-13T12:26:40.000Z\<close> is not below
  \<open>+010000-01-01T00:00:00.000Z\<close>, the update is taken as stale, \<open>updatePost\<close> returns
  null and the keyword index still holds \<open>a\<close> and \<open>b\<close> and not \<open>c\<close>.
\<close>

theorem updatePost_newer_tags_not_indexed:
  "findOneBy_id ex_store Article ''p1'' = Some ex_article
   \<and> ex_article ''metadataChangedAt'' = JDate 1600000000000
   \<and> ex_update_far ''metadataChangedAt'' = JDate 253402300800000
   \<and> (1600000000000 :: int) < 253402300800000
   \<and> toISOString (JDate 1600000000000) = Inr ''2020-09-13T12:26:40.000Z''
   \<and> toISOString (JDate 253402300800000) = Inr ''+010000-01-01T00:00:00.000Z''
   \<and> ex_article ''tagsStr'' = JStr ''a,b'' \<and> ex_update_far ''tagsStr'' = JStr ''b,c''
   \<and> stale ex_article ex_update_far = Inr True
   \<and> updatePost ex_store ex_update_far ''p1'' [''b'', ''c''] [] None = Inr (RetNull, ex_store)
   \<and> postKeywords ex_store = {(JStr ''p1'', ''a''), (JStr ''p1'', ''b'')}"
proof -
  have "ex_article ''metadataChangedAt'' = JDate 1600000000000"
    "ex_update_far ''metadataChangedAt'' = JDate 253402300800000"
    "ex_article ''tagsStr'' = JStr ''a,b''" "ex_update_far ''tagsStr'' = JStr ''b,c''"
    "postKeywords ex_store = {(JStr ''p1'', ''a''), (JStr ''p1'', ''b'')}"
    by (simp_all add: ex_defs)
  then show ?thesis
    using find_ex_article stale_ex_far updatePost_ex_far [of "[''b'', ''c'']" "[]"]
    by (simp add: iso_string_2020 iso_string_10000)
qed

text \<open>
  C10, at an input where the code leaves the claim (through the staleness test, the
  defect shown for C1). The stored article is visible and carries the timestamp
  2020-09-13; the update, of content type article, carries the timestamp 10000-01-01,
  which is after the stored one. The update is taken as stale, \<open>updatePost\<close> returns null
  and the stored article is still visible with its visibility timestamp.
\<close>

theorem updatePost_newer_update_keeps_visible:
  "contentTypeFromPostType (PostType_value Article) = Some Article
   \<and> findOneBy_id ex_store Article ''p1'' = Some ex_article
   \<and> ex_article ''visible'' = JBool True
   \<and> ex_article ''metadataChangedAt'' = JDate 1600000000000
   \<and> ex_update_far ''metadataChangedAt'' = JDate 253402300800000
   \<and> (1600000000000 :: int) < 253402300800000
   \<and> stale ex_article ex_update_far = Inr True
   \<and> updatePost ex_store ex_update_far ''p1'' [] [] (Some ''article'') = Inr (RetNull, ex_store)
   \<and> map (\<lambda>p. (p ''id'', p ''visible'', p ''visibleAt'')) (posts ex_store) =
       [(JStr ''p1'', JBool True, JDate 1600000000000),
        (JStr ''f1'', JBool True, JDate 1600000000000)]"
proof -
  have c: "contentTypeFromPostType
             (case Some ''article'' of None \<Rightarrow> PostType_value Article | Some c \<Rightarrow> c)
           = Some Article"
    by (simp add: contentTypeFromPostType_def)
  have u: "updatePost ex_store ex_update_far ''p1'' [] [] (Some ''article'')
             = Inr (RetNull, ex_store)"
  proof (rule updatePost_stale_noop [OF c])
    show "findOneBy_id ex_store Article ''p1'' = None \<or>
          (\<exists>dbp. findOneBy_id ex_store Article ''p1'' = Some dbp
                  \<and> stale dbp ex_update_far = Inr True)"
      using find_ex_article stale_ex_far by simp
  qed
  have "ex_article ''visible'' = JBool True"
    "ex_article ''metadataChangedAt'' = JDate 1600000000000"
    "ex_update_far ''metadataChangedAt'' = JDate 253402300800000"
    "map (\<lambda>p. (p ''id'', p ''visible'', p ''visibleAt'')) (posts ex_store) =
       [(JStr ''p1'', JBool True, JDate 1600000000000),
        (JStr ''f1'', JBool True, JDate 1600000000000)]"
    by (simp_all add: ex_defs)
  then show ?thesis
    using find_ex_article stale_ex_far u
    by (simp add: contentTypeFromPostType_def)
qed

end
